theory Spec2Isabelle
  imports Complex_Main
begin

section \<open>Common vocabulary: exceptions, effects, the outside world\<close>

text \<open>
  The Python sources raise exceptions, sleep on the event loop, draw random numbers and
  talk to a remote endpoint. Each of these is made explicit:
  \<^item> an exception is a value of \<open>exn\<close>, and a function that may raise returns
    \<open>exn + 'a\<close> (\<open>Inl\<close> is the raise);
  \<^item> \<open>asyncio.sleep\<close> and a request sent to the remote endpoint are recorded, in
    order, in the \<open>trace\<close> of the world;
  \<^item> \<open>random.random()\<close> reads the next value of a sequence of draws that the world
    supplies (\<open>rand\<close>), and \<open>drawn\<close> counts how many were consumed.
  Python floats are modelled as real numbers: comparisons and branches are exact, the
  rounding of float arithmetic is not modelled.
\<close>

datatype exn =
    ConnectionError string   \<comment> \<open>builtin, raised by the simulator on a lost packet\<close>
  | ReadTimeout              \<comment> \<open>httpx.ReadTimeout\<close>
  | TransportError string    \<comment> \<open>any other httpx error (connect failure, bad status)\<close>
  | ZeroDivisionError

datatype effect =
    Sleep real               \<comment> \<open>\<open>await asyncio.sleep(d)\<close>, \<open>d\<close> in seconds\<close>
  | Remote string            \<comment> \<open>a request issued to the remote endpoint\<close>

record world =
  rand :: "nat \<Rightarrow> real"
  drawn :: nat
  trace :: "effect list"

definition sleep :: "real \<Rightarrow> world \<Rightarrow> world" where
  "sleep d w = w\<lparr>trace := trace w @ [Sleep d]\<rparr>"

definition random_random :: "world \<Rightarrow> real \<times> world" where
  "random_random w = (rand w (drawn w), w\<lparr>drawn := Suc (drawn w)\<rparr>)"

text \<open>
  The delay a trace injects: \<open>asyncio.sleep(d)\<close> suspends for \<open>d\<close> seconds when
  \<open>d > 0\<close> and only yields to the event loop otherwise.
\<close>

fun injected_delay :: "effect list \<Rightarrow> real" where
  "injected_delay [] = 0"
| "injected_delay (Sleep d # es) = max 0 d + injected_delay es"
| "injected_delay (Remote p # es) = injected_delay es"

fun remote_calls :: "effect list \<Rightarrow> string list" where
  "remote_calls [] = []"
| "remote_calls (Sleep d # es) = remote_calls es"
| "remote_calls (Remote p # es) = p # remote_calls es"

text \<open>Python's true division of floats raises on a zero divisor.\<close>

definition py_truediv :: "real \<Rightarrow> real \<Rightarrow> exn + real" where
  "py_truediv a b = (if b = 0 then Inl ZeroDivisionError else Inr (a / b))"

section \<open>clients/network\_sim.py\<close>

record NetworkSimulator =
  latency_ms :: real
  packet_loss_rate :: real
  bandwidth_mbps :: real

definition init_NetworkSimulator :: NetworkSimulator where
  "init_NetworkSimulator = \<lparr>latency_ms = 0, packet_loss_rate = 0, bandwidth_mbps = 0\<rparr>"

definition set_conditions :: "real \<Rightarrow> real \<Rightarrow> real \<Rightarrow> NetworkSimulator \<Rightarrow> NetworkSimulator" where
  "set_conditions l p b s = \<lparr>latency_ms = l, packet_loss_rate = p, bandwidth_mbps = b\<rparr>"

text \<open>
  \<^verbatim>\<open>
  if self.packet_loss_rate > 0 and random.random() < self.packet_loss_rate:
      await asyncio.sleep(self.latency_ms / 1000.0)
      raise ConnectionError("Simulated Network Packet Loss")
  if self.latency_ms > 0:
      await asyncio.sleep(self.latency_ms / 1000.0)
  \<close>
  The \<open>and\<close> short-circuits: the draw happens only when the rate is positive.
\<close>

definition base_latency :: "NetworkSimulator \<Rightarrow> world \<Rightarrow> (exn + unit) \<times> world" where
  "base_latency s w =
     (if latency_ms s > 0 then (Inr (), sleep (latency_ms s / 1000) w) else (Inr (), w))"

definition simulate_network :: "NetworkSimulator \<Rightarrow> world \<Rightarrow> (exn + unit) \<times> world" where
  "simulate_network s w =
     (if packet_loss_rate s > 0 then
        (case random_random w of (r, w1) \<Rightarrow>
           if r < packet_loss_rate s then
             (Inl (ConnectionError ''Simulated Network Packet Loss''),
              sleep (latency_ms s / 1000) w1)
           else base_latency s w1)
      else base_latency s w)"

text \<open>
  \<^verbatim>\<open>
  await self.simulate_network()
  if self.bandwidth_mbps > 0:
      bits = bytes_count * 8
      bits_per_second = self.bandwidth_mbps * 1_000_000
      transfer_time = bits / bits_per_second
      await asyncio.sleep(transfer_time)
  \<close>
\<close>

definition simulate_transfer :: "NetworkSimulator \<Rightarrow> int \<Rightarrow> world \<Rightarrow> (exn + unit) \<times> world" where
  "simulate_transfer s bytes_count w =
     (case simulate_network s w of
        (Inl e, w1) \<Rightarrow> (Inl e, w1)
      | (Inr u, w1) \<Rightarrow>
          if bandwidth_mbps s > 0 then
            (let bits = bytes_count * 8;
                 bits_per_second = bandwidth_mbps s * 1000000
             in case py_truediv (real_of_int bits) bits_per_second of
                  Inl e \<Rightarrow> (Inl e, w1)
                | Inr transfer_time \<Rightarrow> (Inr (), sleep transfer_time w1))
          else (Inr (), w1))"

text \<open>
  Repeated trials on one simulator, each outcome kept (the shape of the attempt loop of
  \<open>bench_network_instability\<close>, which catches the exception of every attempt).
\<close>

fun trials :: "NetworkSimulator \<Rightarrow> nat \<Rightarrow> world \<Rightarrow> (exn + unit) list \<times> world" where
  "trials s 0 w = ([], w)"
| "trials s (Suc n) w =
     (case simulate_network s w of (r, w1) \<Rightarrow>
        (case trials s n w1 of (rs, w2) \<Rightarrow> (r # rs, w2)))"


section \<open>The gated requests of the two clients\<close>

text \<open>
  The remote endpoint is not part of the simulator: it is a parameter. For a request
  (named by its path, or by its JSON-RPC method when it is posted to \<open>/message\<close>)
  it either raises or answers; the answer
  carries what the callers read from it (the seconds the round trip took, measured by
  \<open>time.perf_counter()\<close> around the call, and the length of the response body).
\<close>

record response =
  took_seconds :: real
  content_length :: nat

type_synonym endpoint = "string \<Rightarrow> exn + response"

definition issue :: "endpoint \<Rightarrow> string \<Rightarrow> world \<Rightarrow> (exn + response) \<times> world" where
  "issue remote path w = (remote path, w\<lparr>trace := trace w @ [Remote path]\<rparr>)"

text \<open>
  \<open>RestClient.ping_async\<close>: the gate, then \<open>GET /status\<close>, \<open>raise_for_status\<close>
  (folded into the endpoint's raise), and the pair of elapsed milliseconds and bytes.
\<close>

definition ping_async ::
  "endpoint \<Rightarrow> NetworkSimulator \<Rightarrow> world \<Rightarrow> (exn + real \<times> nat) \<times> world" where
  "ping_async remote sim w =
     (case simulate_network sim w of
        (Inl e, w1) \<Rightarrow> (Inl e, w1)
      | (Inr u, w1) \<Rightarrow>
          (case issue remote ''/status'' w1 of
             (Inl e, w2) \<Rightarrow> (Inl e, w2)
           | (Inr r, w2) \<Rightarrow> (Inr (took_seconds r * 1000, content_length r + 100), w2)))"

text \<open>\<open>RestClient.echo_async\<close>: the gate, then \<open>POST /echo\<close>; elapsed milliseconds.\<close>

definition echo_async ::
  "endpoint \<Rightarrow> NetworkSimulator \<Rightarrow> world \<Rightarrow> (exn + real) \<times> world" where
  "echo_async remote sim w =
     (case simulate_network sim w of
        (Inl e, w1) \<Rightarrow> (Inl e, w1)
      | (Inr u, w1) \<Rightarrow>
          (case issue remote ''/echo'' w1 of
             (Inl e, w2) \<Rightarrow> (Inl e, w2)
           | (Inr r, w2) \<Rightarrow> (Inr (took_seconds r * 1000), w2)))"

text \<open>
  \<open>McpClient._send_request_async\<close>: the gate, then the next request id is taken and
  the JSON-RPC payload is posted to \<open>/message\<close>. The client's \<open>request_id\<close> is
  threaded through; a dropped request does not consume an id.
\<close>

record McpClient =
  network_sim :: NetworkSimulator
  request_id :: int
  session_id :: "string option"

definition init_McpClient :: McpClient where
  "init_McpClient = \<lparr>network_sim = init_NetworkSimulator, request_id = 0, session_id = None\<rparr>"

definition send_request_async ::
  "endpoint \<Rightarrow> McpClient \<Rightarrow> string \<Rightarrow> world \<Rightarrow> (exn + response) \<times> McpClient \<times> world" where
  "send_request_async remote c method w =
     (case simulate_network (network_sim c) w of
        (Inl e, w1) \<Rightarrow> (Inl e, c, w1)
      | (Inr u, w1) \<Rightarrow>
          (let c1 = c\<lparr>request_id := request_id c + 1\<rparr>
           in case issue remote method w1 of (r, w2) \<Rightarrow> (r, c1, w2)))"

section \<open>Concrete simulators and worlds\<close>

definition constant_draws :: "real \<Rightarrow> nat \<Rightarrow> real" where
  "constant_draws r n = r"

definition quiet_world :: "real \<Rightarrow> world" where
  "quiet_world r = \<lparr>rand = constant_draws r, drawn = 0, trace = []\<rparr>"

definition conditions :: "real \<Rightarrow> real \<Rightarrow> real \<Rightarrow> NetworkSimulator" where
  "conditions l p b = set_conditions l p b init_NetworkSimulator"

definition healthy :: endpoint where
  "healthy path = Inr \<lparr>took_seconds = 1 / 1000, content_length = 15\<rparr>"

definition lossy_client :: McpClient where
  "lossy_client = init_McpClient\<lparr>network_sim := conditions 100 (1/10) 0\<rparr>"

text \<open>
  The delay \<open>simulate_transfer\<close> injects beyond the delay of its own call to
  \<open>simulate_network\<close>.
\<close>

definition extra_delay :: "NetworkSimulator \<Rightarrow> int \<Rightarrow> world \<Rightarrow> real" where
  "extra_delay s n w =
     injected_delay (trace (snd (simulate_transfer s n w)))
       - injected_delay (trace (snd (simulate_network s w)))"

section \<open>JSON values and the decoder\<close>

text \<open>
  The values \<open>json.loads\<close> returns. An integer literal becomes a Python \<open>int\<close>;
  a literal with a fraction or an exponent becomes a \<open>float\<close>, kept here as its
  text (the conversion to a double is not modelled). An object keeps one binding for
  each key, the last one of the text, as a Python \<open>dict\<close> does.
\<close>

datatype json =
    JNull
  | JBool bool
  | JInt int
  | JFloat string
  | JString string
  | JArray "json list"
  | JObject "(string \<times> json) list"

fun dict_set :: "(string \<times> json) list \<Rightarrow> string \<Rightarrow> json \<Rightarrow> (string \<times> json) list" where
  "dict_set [] k v = [(k, v)]"
| "dict_set ((k', v') # kvs) k v =
     (if k' = k then (k, v) # kvs else (k', v') # dict_set kvs k v)"

text \<open>
  \<open>obj.get(key, default)\<close>: an \<open>AttributeError\<close> unless \<open>obj\<close> is a
  \<open>dict\<close>.
\<close>

datatype attribute_error = AttributeError

fun py_get :: "json \<Rightarrow> string \<Rightarrow> json \<Rightarrow> attribute_error + json" where
  "py_get (JObject kvs) k d = Inr (case map_of kvs k of Some v \<Rightarrow> v | None \<Rightarrow> d)"
| "py_get _ k d = Inl AttributeError"

subsection \<open>Lexical helpers\<close>

definition is_digit :: "char \<Rightarrow> bool" where
  "is_digit c = (48 \<le> (of_char c :: nat) \<and> (of_char c :: nat) \<le> 57)"

definition is_json_space :: "char \<Rightarrow> bool" where
  "is_json_space c = ((of_char c :: nat) = 32 \<or> (of_char c :: nat) = 9
                      \<or> (of_char c :: nat) = 10 \<or> (of_char c :: nat) = 13)"

definition skip_ws :: "string \<Rightarrow> string" where
  "skip_ws s = dropWhile is_json_space s"

definition startswith :: "string \<Rightarrow> string \<Rightarrow> bool" where
  "startswith p s = (take (length p) s = p)"

definition digit_value :: "char \<Rightarrow> nat" where
  "digit_value c = (of_char c :: nat) - 48"

definition digits_value :: "string \<Rightarrow> nat" where
  "digits_value ds = foldl (\<lambda>acc c. 10 * acc + digit_value c) 0 ds"

definition hex_value :: "char \<Rightarrow> nat option" where
  "hex_value c =
     (let n = (of_char c :: nat) in
      if 48 \<le> n \<and> n \<le> 57 then Some (n - 48)
      else if 65 \<le> n \<and> n \<le> 70 then Some (n - 55)
      else if 97 \<le> n \<and> n \<le> 102 then Some (n - 87)
      else None)"

fun hex4 :: "string \<Rightarrow> (nat \<times> string) option" where
  "hex4 (a # b # c # d # rest) =
     (case (hex_value a, hex_value b, hex_value c, hex_value d) of
        (Some x, Some y, Some z, Some u) \<Rightarrow> Some (((x * 16 + y) * 16 + z) * 16 + u, rest)
      | _ \<Rightarrow> None)"
| "hex4 _ = None"

text \<open>A code point as the bytes of its UTF-8 encoding (strings are byte lists).\<close>

definition utf8 :: "nat \<Rightarrow> string" where
  "utf8 n =
     (if n < 128 then [char_of n]
      else if n < 2048 then [char_of (192 + n div 64), char_of (128 + n mod 64)]
      else if n < 65536 then
        [char_of (224 + n div 4096), char_of (128 + (n div 64) mod 64), char_of (128 + n mod 64)]
      else
        [char_of (240 + n div 262144), char_of (128 + (n div 4096) mod 64),
         char_of (128 + (n div 64) mod 64), char_of (128 + n mod 64)])"

subsection \<open>Numbers\<close>

text \<open>
  The decoder's number pattern:
  \<^verbatim>\<open>(-?(?:0|[1-9][0-9]*))(\.[0-9]+)?([eE][-+]?[0-9]+)?\<close>.
  The result is the literal's value and the rest of the text.
\<close>

definition scan_int_part :: "string \<Rightarrow> (string \<times> string) option" where
  "scan_int_part s =
     (case s of
        [] \<Rightarrow> None
      | c # cs \<Rightarrow>
          if c = CHR ''0'' then Some ([c], cs)
          else if is_digit c then Some (takeWhile is_digit s, dropWhile is_digit s)
          else None)"

definition scan_frac :: "string \<Rightarrow> string \<times> string" where
  "scan_frac s =
     (case s of
        c # d # cs \<Rightarrow>
          if c = CHR ''.'' \<and> is_digit d
          then (c # takeWhile is_digit (d # cs), dropWhile is_digit (d # cs))
          else ([], s)
      | _ \<Rightarrow> ([], s))"

definition scan_exp :: "string \<Rightarrow> string \<times> string" where
  "scan_exp s =
     (case s of
        [] \<Rightarrow> ([], s)
      | e # cs \<Rightarrow>
          if e = CHR ''e'' \<or> e = CHR ''E'' then
            (case cs of
               [] \<Rightarrow> ([], s)
             | g # ds \<Rightarrow>
                 if g = CHR ''+'' \<or> g = CHR ''-'' then
                   (case ds of
                      [] \<Rightarrow> ([], s)
                    | d # _ \<Rightarrow>
                        if is_digit d
                        then (e # g # takeWhile is_digit ds, dropWhile is_digit ds)
                        else ([], s))
                 else if is_digit g
                 then (e # takeWhile is_digit cs, dropWhile is_digit cs)
                 else ([], s))
          else ([], s))"

definition scan_number :: "string \<Rightarrow> (json \<times> string) option" where
  "scan_number s =
     (let neg = (s \<noteq> [] \<and> hd s = CHR ''-'');
          s1 = (if neg then tl s else s)
      in case scan_int_part s1 of
           None \<Rightarrow> None
         | Some (ip, r1) \<Rightarrow>
             (case scan_frac r1 of (fp, r2) \<Rightarrow>
                (case scan_exp r2 of (ep, r3) \<Rightarrow>
                   if fp = [] \<and> ep = [] then
                     Some (JInt (if neg then - int (digits_value ip) else int (digits_value ip)), r3)
                   else Some (JFloat ((if neg then ''-'' else '''') @ ip @ fp @ ep), r3))))"

subsection \<open>Strings\<close>

text \<open>
  The body of a string literal, after its opening quote, up to and including the closing
  quote. Control characters are refused (the decoder is strict); the escapes are the
  eight simple ones and \<open>\uXXXX\<close>, where a high surrogate followed by a low one is
  one code point.
\<close>

definition simple_escape :: "char \<Rightarrow> char option" where
  "simple_escape c =
     (if c = CHR ''\"'' then Some (CHR ''\"'')
      else if c = CHR 0x5C then Some (CHR 0x5C)
      else if c = CHR ''/'' then Some (CHR ''/'')
      else if c = CHR ''b'' then Some (CHR 0x08)
      else if c = CHR ''f'' then Some (CHR 0x0C)
      else if c = CHR ''n'' then Some (CHR 0x0A)
      else if c = CHR ''r'' then Some (CHR 0x0D)
      else if c = CHR ''t'' then Some (CHR 0x09)
      else None)"

definition scan_unicode :: "string \<Rightarrow> (string \<times> string) option" where
  "scan_unicode s =
     (case hex4 s of
        None \<Rightarrow> None
      | Some (hi, rest) \<Rightarrow>
          if 55296 \<le> hi \<and> hi \<le> 56319 \<and> startswith [CHR 0x5C, CHR ''u''] rest then
            (case hex4 (drop 2 rest) of
               Some (lo, rest2) \<Rightarrow>
                 if 56320 \<le> lo \<and> lo \<le> 57343
                 then Some (utf8 (65536 + (hi - 55296) * 1024 + (lo - 56320)), rest2)
                 else Some (utf8 hi, rest)
             | None \<Rightarrow> Some (utf8 hi, rest))
          else Some (utf8 hi, rest))"

fun scan_string :: "nat \<Rightarrow> string \<Rightarrow> string \<Rightarrow> (string \<times> string) option" where
  "scan_string 0 acc s = None"
| "scan_string (Suc fuel) acc [] = None"
| "scan_string (Suc fuel) acc (c # cs) =
     (if c = CHR ''\"'' then Some (acc, cs)
      else if c = CHR 0x5C then
        (case cs of
           [] \<Rightarrow> None
         | e # es \<Rightarrow>
             if e = CHR ''u'' then
               (case scan_unicode es of
                  None \<Rightarrow> None
                | Some (bytes, rest) \<Rightarrow> scan_string fuel (acc @ bytes) rest)
             else
               (case simple_escape e of
                  None \<Rightarrow> None
                | Some x \<Rightarrow> scan_string fuel (acc @ [x]) es))
      else if (of_char c :: nat) < 32 then None
      else scan_string fuel (acc @ [c]) cs)"

subsection \<open>Values\<close>

text \<open>
  One value at the head of the text, in the order the decoder tries them: string,
  object, array, \<open>null\<close>, \<open>true\<close>, \<open>false\<close>, number, \<open>NaN\<close>,
  \<open>Infinity\<close>, \<open>-Infinity\<close>. Recursion is bounded by a fuel that every call
  decreases. Of two consecutive calls at least one comes after a character was
  consumed, so twice the length of the text (and two) is enough fuel.
\<close>

fun scan_once :: "nat \<Rightarrow> string \<Rightarrow> (json \<times> string) option"
  and scan_members :: "nat \<Rightarrow> (string \<times> json) list \<Rightarrow> string \<Rightarrow> (json \<times> string) option"
  and scan_items :: "nat \<Rightarrow> json list \<Rightarrow> string \<Rightarrow> (json \<times> string) option"
where
  "scan_once 0 s = None"
| "scan_once (Suc fuel) s =
     (case s of
        [] \<Rightarrow> None
      | c # cs \<Rightarrow>
          if c = CHR ''\"'' then
            (case scan_string (length cs) [] cs of
               None \<Rightarrow> None
             | Some (str, rest) \<Rightarrow> Some (JString str, rest))
          else if c = CHR ''{'' then
            (case skip_ws cs of
               [] \<Rightarrow> None
             | d # ds \<Rightarrow>
                 if d = CHR ''}'' then Some (JObject [], ds)
                 else scan_members fuel [] (d # ds))
          else if c = CHR ''['' then
            (case skip_ws cs of
               [] \<Rightarrow> None
             | d # ds \<Rightarrow>
                 if d = CHR '']'' then Some (JArray [], ds)
                 else scan_items fuel [] (d # ds))
          else if startswith ''null'' s then Some (JNull, drop 4 s)
          else if startswith ''true'' s then Some (JBool True, drop 4 s)
          else if startswith ''false'' s then Some (JBool False, drop 5 s)
          else
            (case scan_number s of
               Some r \<Rightarrow> Some r
             | None \<Rightarrow>
                 if startswith ''NaN'' s then Some (JFloat ''NaN'', drop 3 s)
                 else if startswith ''Infinity'' s then Some (JFloat ''Infinity'', drop 8 s)
                 else if startswith ''-Infinity'' s then Some (JFloat ''-Infinity'', drop 9 s)
                 else None))"
| "scan_members 0 acc s = None"
| "scan_members (Suc fuel) acc s =
     (case s of
        [] \<Rightarrow> None
      | q # cs \<Rightarrow>
          if q \<noteq> CHR ''\"'' then None
          else
            (case scan_string (length cs) [] cs of
               None \<Rightarrow> None
             | Some (key, r1) \<Rightarrow>
                 (case skip_ws r1 of
                    [] \<Rightarrow> None
                  | colon # r2 \<Rightarrow>
                      if colon \<noteq> CHR '':'' then None
                      else
                        (case scan_once fuel (skip_ws r2) of
                           None \<Rightarrow> None
                         | Some (v, r3) \<Rightarrow>
                             (case skip_ws r3 of
                                [] \<Rightarrow> None
                              | sep # r4 \<Rightarrow>
                                  if sep = CHR ''}'' then Some (JObject (dict_set acc key v), r4)
                                  else if sep = CHR '','' then
                                    scan_members fuel (dict_set acc key v) (skip_ws r4)
                                  else None)))))"
| "scan_items 0 acc s = None"
| "scan_items (Suc fuel) acc s =
     (case scan_once fuel s of
        None \<Rightarrow> None
      | Some (v, r1) \<Rightarrow>
          (case skip_ws r1 of
             [] \<Rightarrow> None
           | sep # r2 \<Rightarrow>
               if sep = CHR '']'' then Some (JArray (acc @ [v]), r2)
               else if sep = CHR '','' then scan_items fuel (acc @ [v]) (skip_ws r2)
               else None))"

text \<open>
  \<open>json.loads\<close>: leading white space, one value, trailing white space, nothing else.
  \<open>None\<close> is the \<open>JSONDecodeError\<close>.
\<close>

definition json_loads :: "string \<Rightarrow> json option" where
  "json_loads s =
     (case scan_once (2 * length s + 2) (skip_ws s) of
        None \<Rightarrow> None
      | Some (v, rest) \<Rightarrow> if skip_ws rest = [] then Some v else None)"

section \<open>clients/mcp\_client.py: consuming the event stream\<close>

text \<open>
  What \<open>async for line in response.aiter_lines()\<close> sees. The stream is the sequence
  of the outcomes of its reads, possibly without end: the \<open>n\<close>-th read delivers a
  line, or finds the stream closed, or raises (a read timeout, or any other transport
  error; a stream that cannot be opened raises at its first read). Each outcome comes
  with the wall-clock time at which it is delivered, which is what \<open>time.time()\<close>
  returns when the loop body runs next.
\<close>

datatype read = Line string | Eof | Raise exn

type_synonym sse = "nat \<Rightarrow> read \<times> real"



subsection \<open>connect\_sse\<close>




subsection \<open>listen\_for\_events\<close>

text \<open>
  \<open>msg.get("params", {}).get("status") == "completed"\<close>; either \<open>get\<close> raises an
  \<open>AttributeError\<close> when its receiver is not a \<open>dict\<close>.
\<close>

definition status_completed :: "json \<Rightarrow> attribute_error + bool" where
  "status_completed msg =
     (case py_get msg ''params'' (JObject []) of
        Inl e \<Rightarrow> Inl e
      | Inr params \<Rightarrow>
          (case py_get params ''status'' JNull of
             Inl e \<Rightarrow> Inl e
           | Inr status \<Rightarrow> Inr (status = JString ''completed'')))"

text \<open>
  The body of the inner \<open>try\<close> with its bare \<open>except: pass\<close>:
  \<^verbatim>\<open>
  try:
      msg = json.loads(data)
      events.append(msg)
      if msg.get("params", {}).get("status") == "completed":
          break
  except:
      pass
  \<close>
  The result is the event list and whether the loop breaks. An exception raised after
  the \<open>append\<close> leaves the event in the list.
\<close>

definition on_data :: "(string \<Rightarrow> json option) \<Rightarrow> string \<Rightarrow> json list \<Rightarrow> json list \<times> bool" where
  "on_data loads data events =
     (case loads data of
        None \<Rightarrow> (events, False)
      | Some msg \<Rightarrow>
          (case status_completed msg of
             Inl e \<Rightarrow> (events @ [msg], False)
           | Inr done \<Rightarrow> (events @ [msg], done)))"

text \<open>
  \<^verbatim>\<open>
  events = []
  start = time.time()
  try:
      async with self.async_client.stream("GET", "/sse") as response:
          async for line in response.aiter_lines():
              if time.time() - start > duration:
                  break
              if line.startswith("data: "):
                  data = line[6:]
                  ... the inner try ...
  except httpx.ReadTimeout:
      pass
  return events
  \<close>
  The result is the outcome (the events, or the exception that escapes) and the index
  of the last read; the call returns at the time of that read.
\<close>

partial_function (option) listen_loop ::
  "(string \<Rightarrow> json option) \<Rightarrow> real \<Rightarrow> real \<Rightarrow> sse \<Rightarrow> nat \<Rightarrow> json list
     \<Rightarrow> ((exn + json list) \<times> nat) option" where
  "listen_loop loads duration start s i events =
     (case s i of
        (Eof, now) \<Rightarrow> Some (Inr events, i)
      | (Raise e, now) \<Rightarrow>
          if e = ReadTimeout then Some (Inr events, i) else Some (Inl e, i)
      | (Line line, now) \<Rightarrow>
          if now - start > duration then Some (Inr events, i)
          else if startswith ''data: '' line then
            (case on_data loads (drop 6 line) events of
               (events', done) \<Rightarrow>
                 if done then Some (Inr events', i)
                 else listen_loop loads duration start s (Suc i) events')
          else listen_loop loads duration start s (Suc i) events)"

declare listen_loop.simps [code]

definition listen_for_events ::
  "(string \<Rightarrow> json option) \<Rightarrow> real \<Rightarrow> real \<Rightarrow> sse \<Rightarrow> ((exn + json list) \<times> nat) option" where
  "listen_for_events loads duration start s = listen_loop loads duration start s 0 []"

definition returned_at :: "sse \<Rightarrow> ((exn + json list) \<times> nat) \<Rightarrow> real" where
  "returned_at s r = snd (s (snd r))"

subsection \<open>Scripted streams\<close>

text \<open>
  A stream that delivers the given lines at the given times and then ends the way
  \<open>final\<close> says.
\<close>

definition script :: "(string \<times> real) list \<Rightarrow> read \<times> real \<Rightarrow> sse" where
  "script ls final n = (if n < length ls then (Line (fst (ls ! n)), snd (ls ! n)) else final)"

text \<open>
  The lines the bundled server's \<open>event_generator\<close> puts on the wire: the connection
  event with the session id, then each message as a \<open>data:\<close> line followed by the
  empty line that ends an event.
  \<^verbatim>\<open>
  yield f"event: connection\ndata: {session_id}\n\n"
  ...
  yield f"data: {json.dumps(message)}\n\n"
  \<close>
\<close>

definition server_lines :: "string \<Rightarrow> string list \<Rightarrow> string list" where
  "server_lines sid messages =
     [''event: connection'', ''data: '' @ sid, ''''] @ concat (map (\<lambda>m. [''data: '' @ m, '''']) messages)"

definition progress_running :: "string \<Rightarrow> string" where
  "progress_running p =
     ''{\"jsonrpc\": \"2.0\", \"method\": \"notifications/progress\", \"params\": {\"progress\": ''
       @ p @ '', \"status\": \"running\"}}''"

definition progress_completed :: string where
  "progress_completed =
     ''{\"jsonrpc\": \"2.0\", \"method\": \"notifications/progress\", \"params\": {\"progress\": 100, \"status\": \"completed\", \"result\": \"Task Completed Successfully\"}}''"

subsection \<open>What a run of reads contributes\<close>

text \<open>
  The events one read appends (\<open>line_events\<close>), whether it is a terminal event
  (\<open>terminal\<close>: a data line whose decoded message has \<open>params.status\<close> equal to
  \<open>"completed"\<close>), and the events of the reads \<open>i, ..., k - 1\<close> in order
  (\<open>collected\<close>).
\<close>

fun line_events :: "(string \<Rightarrow> json option) \<Rightarrow> read \<Rightarrow> json list" where
  "line_events loads (Line line) =
     (if startswith ''data: '' line
      then (case loads (drop 6 line) of None \<Rightarrow> [] | Some msg \<Rightarrow> [msg])
      else [])"
| "line_events loads Eof = []"
| "line_events loads (Raise e) = []"

fun terminal :: "(string \<Rightarrow> json option) \<Rightarrow> read \<Rightarrow> bool" where
  "terminal loads (Line line) =
     (startswith ''data: '' line \<and>
      (case loads (drop 6 line) of
         None \<Rightarrow> False
       | Some msg \<Rightarrow> status_completed msg = Inr True))"
| "terminal loads Eof = False"
| "terminal loads (Raise e) = False"

definition collected :: "(string \<Rightarrow> json option) \<Rightarrow> sse \<Rightarrow> nat \<Rightarrow> nat \<Rightarrow> json list" where
  "collected loads s i k = concat (map (\<lambda>j. line_events loads (fst (s j))) [i..<k])"

text \<open>A read that delivers a line before the budget is spent.\<close>

definition in_budget :: "real \<Rightarrow> real \<Rightarrow> read \<times> real \<Rightarrow> bool" where
  "in_budget duration start r =
     (case r of (Line line, now) \<Rightarrow> \<not> now - start > duration | _ \<Rightarrow> False)"

definition over_budget :: "real \<Rightarrow> real \<Rightarrow> read \<times> real \<Rightarrow> bool" where
  "over_budget duration start r =
     (case r of (Line line, now) \<Rightarrow> now - start > duration | _ \<Rightarrow> False)"

subsection \<open>The server's lines and some concrete streams\<close>



definition at_time :: "real \<Rightarrow> string list \<Rightarrow> (string \<times> real) list" where
  "at_time t ls = map (\<lambda>l. (l, t)) ls"

text \<open>The server's stream for one task that completes, closed afterwards.\<close>

definition task_stream :: sse where
  "task_stream =
     script (at_time 0 (server_lines ''1762213345.1234567'' [progress_running ''10'', progress_completed]))
       (Eof, 1)"

text \<open>A peer that sends its session id as plain text.\<close>

definition plain_id_stream :: sse where
  "plain_id_stream = script (at_time 0 [''event: connection'', ''data: abc-123 '', '''']) (Eof, 1)"

text \<open>
  Three progress events on the wire, one second apart, the third one terminal, and a
  fourth event queued behind it.
\<close>

definition three_events :: sse where
  "three_events =
     script [(''data: '' @ progress_running ''10'', 1), ('''', 1),
             (''data: '' @ progress_running ''50'', 2), ('''', 2),
             (''data: '' @ progress_completed, 3), ('''', 3),
             (''data: '' @ progress_running ''60'', 4)] (Eof, 5)"

text \<open>The same three events, the second and third delivered after six and seven seconds.\<close>

definition late_stream :: sse where
  "late_stream =
     script [(''data: '' @ progress_running ''10'', 1),
             (''data: '' @ progress_running ''50'', 6),
             (''data: '' @ progress_completed, 7)] (Eof, 8)"

text \<open>A stream with a line that is not JSON between two events.\<close>

definition garbled_stream :: sse where
  "garbled_stream =
     script [(''data: '' @ progress_running ''10'', 1),
             (''data: {oops'', 2),
             (''data: '' @ progress_completed, 3)] (Eof, 4)"

text \<open>
  Streams without a terminal event: one that stays silent for a long time between two
  lines, one that is silent until the transport's read times out, and an endpoint that
  cannot be reached.
\<close>

definition slow_stream :: sse where
  "slow_stream =
     script [(''data: '' @ progress_running ''10'', 1/2),
             (''data: '' @ progress_running ''20'', 20)] (Eof, 21)"

definition silent_stream :: sse where
  "silent_stream = script [(''data: '' @ progress_running ''10'', 1/2)] (Raise ReadTimeout, 61/2)"

definition unreachable :: sse where
  "unreachable = script [] (Raise (TransportError ''ConnectError''), 0)"

text \<open>The three events of \<open>three_events\<close>, cut off right after the terminal one.\<close>

definition three_events_cut :: sse where
  "three_events_cut =
     script [(''data: '' @ progress_running ''10'', 1), ('''', 1),
             (''data: '' @ progress_running ''50'', 2), ('''', 2),
             (''data: '' @ progress_completed, 3)] (Raise (TransportError ''ReadError''), 3)"

text \<open>The decoded notifications.\<close>

definition event_running :: "int \<Rightarrow> json" where
  "event_running p =
     JObject [(''jsonrpc'', JString ''2.0''), (''method'', JString ''notifications/progress''),
              (''params'', JObject [(''progress'', JInt p), (''status'', JString ''running'')])]"

definition event_completed :: json where
  "event_completed =
     JObject [(''jsonrpc'', JString ''2.0''), (''method'', JString ''notifications/progress''),
              (''params'', JObject [(''progress'', JInt 100), (''status'', JString ''completed''),
                                    (''result'', JString ''Task Completed Successfully'')])]"

text \<open>A stream with a line whose payload is JSON, but a bare number, between two events.\<close>

definition number_stream :: sse where
  "number_stream =
     script [(''data: '' @ progress_running ''10'', 1),
             (''data: 5'', 2),
             (''data: '' @ progress_completed, 3)] (Eof, 4)"

section \<open>benchmarks/run\_benchmark\_advanced.py: the batch of scenarios\<close>

text \<open>
  The scenarios call operations of the two clients. What such a call does on the wire
  is not the batch's business: an operation, named by its client and method and
  numbered by the iteration that issues it, either raises or returns what the scenario
  reads from its result. The wall-clock spans the scenarios measure themselves are
  inputs too.
\<close>

record measurement =
  m_latency_ms :: real
  m_bytes_sent :: int
  m_count :: nat

record operations =
  call :: "string \<Rightarrow> nat \<Rightarrow> exn + measurement"
  span_seconds :: "string \<Rightarrow> real"
  stock_polls :: nat

text \<open>One row of the results: the two fixed columns and the scenario's own.\<close>

record row =
  protocol :: string
  scenario :: string
  columns :: "(string \<times> real) list"

text \<open>What a scenario prints.\<close>

datatype printed =
    Benchmarking string
  | Skipping string exn
  | BenchFailed string exn
  | BatchCompleted

text \<open>
  A loop whose body, for each index, appends rows to the results and may raise after
  some of them. An exception ends the loop; the rows appended before it stay in the
  list.
\<close>

fun run_rows ::
  "(nat \<Rightarrow> exn option \<times> row list) \<Rightarrow> nat list \<Rightarrow> row list \<Rightarrow> exn option \<times> row list" where
  "run_rows f [] acc = (None, acc)"
| "run_rows f (i # rest) acc =
     (case f i of
        (Some e, rs) \<Rightarrow> (Some e, acc @ rs)
      | (None, rs) \<Rightarrow> run_rows f rest (acc @ rs))"

definition chat_row :: "string \<Rightarrow> string \<Rightarrow> nat \<Rightarrow> measurement \<Rightarrow> row" where
  "chat_row p sc turn m =
     \<lparr>protocol = p, scenario = sc,
      columns = [(''turn'', real turn), (''latency_ms'', m_latency_ms m),
                 (''bytes_sent'', real_of_int (m_bytes_sent m))]\<rparr>"

text \<open>
  \<open>bench_multi_turn_chat\<close>: the REST turns, \<open>initialize_async\<close>, the MCP turns, all
  inside \<open>try ... finally\<close> with no \<open>except\<close>: the clients are closed and the
  exception goes on to the caller.
\<close>

definition bench_multi_turn_chat ::
  "operations \<Rightarrow> nat \<Rightarrow> printed list \<Rightarrow> (exn + row list) \<times> printed list" where
  "bench_multi_turn_chat ops iterations out =
     (let out1 = out @ [Benchmarking ''Multi-turn Chat'']
      in case run_rows (\<lambda>i. case call ops ''rest.chat_turn'' i of
                               Inl e \<Rightarrow> (Some e, [])
                             | Inr m \<Rightarrow> (None, [chat_row ''REST'' ''Chat'' (i + 1) m]))
                [0..<iterations] [] of
           (Some e, rows) \<Rightarrow> (Inl e, out1)
         | (None, rows) \<Rightarrow>
             (case call ops ''mcp.initialize_async'' 0 of
                Inl e \<Rightarrow> (Inl e, out1)
              | Inr u \<Rightarrow>
                  (case run_rows (\<lambda>i. case call ops ''mcp.chat_turn'' i of
                                         Inl e \<Rightarrow> (Some e, [])
                                       | Inr m \<Rightarrow> (None, [chat_row ''MCP'' ''Chat'' (i + 1) m]))
                          [0..<iterations] rows of
                     (Some e, rows2) \<Rightarrow> (Inl e, out1)
                   | (None, rows2) \<Rightarrow> (Inr rows2, out1))))"

text \<open>
  \<open>asyncio.gather\<close> over the same call issued \<open>n\<close> times: the results in order,
  or the exception of a call that raises (here the first one by index).
\<close>

fun gather :: "(nat \<Rightarrow> exn + measurement) \<Rightarrow> nat list \<Rightarrow> exn + measurement list" where
  "gather f [] = Inr []"
| "gather f (i # rest) =
     (case f i of
        Inl e \<Rightarrow> Inl e
      | Inr m \<Rightarrow> (case gather f rest of Inl e \<Rightarrow> Inl e | Inr ms \<Rightarrow> Inr (m # ms)))"

definition concurrency_row :: "string \<Rightarrow> real \<Rightarrow> measurement \<Rightarrow> row" where
  "concurrency_row p rps m =
     \<lparr>protocol = p, scenario = ''Concurrency'',
      columns = [(''latency_ms'', m_latency_ms m), (''rps'', rps),
                 (''bytes_sent'', real_of_int (m_bytes_sent m))]\<rparr>"

definition concurrency_half ::
  "operations \<Rightarrow> string \<Rightarrow> string \<Rightarrow> nat \<Rightarrow> exn + row list" where
  "concurrency_half ops p name concurrency =
     (case gather (call ops name) [0..<concurrency] of
        Inl e \<Rightarrow> Inl e
      | Inr ms \<Rightarrow>
          (case py_truediv (real concurrency) (span_seconds ops name) of
             Inl e \<Rightarrow> Inl e
           | Inr rps \<Rightarrow> Inr (map (concurrency_row p rps) ms)))"

text \<open>\<open>bench_concurrency\<close>: again \<open>try ... finally\<close> only.\<close>

definition bench_concurrency ::
  "operations \<Rightarrow> nat \<Rightarrow> printed list \<Rightarrow> (exn + row list) \<times> printed list" where
  "bench_concurrency ops concurrency out =
     (let out1 = out @ [Benchmarking ''Concurrency'']
      in case concurrency_half ops ''REST'' ''rest.ping_async'' concurrency of
           Inl e \<Rightarrow> (Inl e, out1)
         | Inr rows \<Rightarrow>
             (case concurrency_half ops ''MCP'' ''mcp.call_tool_async'' concurrency of
                Inl e \<Rightarrow> (Inl e, out1)
              | Inr rows2 \<Rightarrow> (Inr (rows @ rows2), out1)))"

definition task_row :: "string \<Rightarrow> real \<Rightarrow> measurement \<Rightarrow> row" where
  "task_row p requests m =
     \<lparr>protocol = p, scenario = ''Long Task'',
      columns = [(''latency_ms'', m_latency_ms m), (''overhead_requests'', requests),
                 (''bytes_sent'', real_of_int (m_bytes_sent m))]\<rparr>"

text \<open>
  \<open>bench_long_running\<close>: the REST polling is guarded by the outer
  \<open>try ... finally\<close> only; the MCP part has its own \<open>except Exception\<close>, which
  prints the notice and goes on. (The result of \<open>run_task_with_notifications\<close> has
  no \<open>"error"\<close> key, so its row is always appended.)
\<close>

definition bench_long_running ::
  "operations \<Rightarrow> printed list \<Rightarrow> (exn + row list) \<times> printed list" where
  "bench_long_running ops out =
     (let out1 = out @ [Benchmarking ''Long-running Task'']
      in case call ops ''rest.run_task_polling'' 0 of
           Inl e \<Rightarrow> (Inl e, out1)
         | Inr m \<Rightarrow>
             (let rows = [task_row ''REST'' (real (m_count m)) m]
              in case call ops ''mcp.run_task_with_notifications'' 0 of
                   Inl e \<Rightarrow> (Inr rows, out1 @ [Skipping ''MCP Long Task'' e])
                 | Inr m2 \<Rightarrow> (Inr (rows @ [task_row ''MCP'' 1 m2]), out1)))"

definition ticker_row :: "string \<Rightarrow> real \<Rightarrow> real \<Rightarrow> row" where
  "ticker_row p requests bytes =
     \<lparr>protocol = p, scenario = ''Stock Ticker'',
      columns = [(''latency_ms'', 0), (''overhead_requests'', requests), (''bytes_sent'', bytes)]\<rparr>"

text \<open>
  \<open>bench_stock_ticker\<close>: the polling loop (as many polls as fit in the duration),
  then the subscription; \<open>except Exception\<close> prints the failure and the rows appended
  so far are returned.
\<close>

definition bench_stock_ticker ::
  "operations \<Rightarrow> printed list \<Rightarrow> (exn + row list) \<times> printed list" where
  "bench_stock_ticker ops out =
     (let out1 = out @ [Benchmarking ''Stock Ticker'']
      in case run_rows (\<lambda>i. case call ops ''rest.get_stock'' i of
                               Inl e \<Rightarrow> (Some e, [])
                             | Inr m \<Rightarrow> (None, []))
                [0..<stock_polls ops] [] of
           (Some e, rows) \<Rightarrow> (Inr rows, out1 @ [BenchFailed ''Stock ticker'' e])
         | (None, rows) \<Rightarrow>
             (let rows1 = rows @ [ticker_row ''REST'' (real (stock_polls ops))
                                    (real (stock_polls ops * 100))]
              in case call ops ''mcp.subscribe_to_resource'' 0 of
                   Inl e \<Rightarrow> (Inr rows1, out1 @ [BenchFailed ''Stock ticker'' e])
                 | Inr m \<Rightarrow> (Inr (rows1 @ [ticker_row ''MCP'' 1 100]), out1)))"

text \<open>
  \<open>bench_network_instability\<close>: twenty attempts for each protocol, each attempt in
  its own \<open>try ... except Exception: pass\<close>; the row holds the average latency of
  the successes and the success rate in percent.
\<close>

fun attempts :: "(nat \<Rightarrow> exn + measurement) \<Rightarrow> nat list \<Rightarrow> nat \<times> real \<Rightarrow> nat \<times> real" where
  "attempts f [] acc = acc"
| "attempts f (i # rest) (successes, total_latency) =
     (case f i of
        Inl e \<Rightarrow> attempts f rest (successes, total_latency)
      | Inr m \<Rightarrow> attempts f rest (successes + 1, total_latency + m_latency_ms m))"

definition instability_row :: "operations \<Rightarrow> string \<Rightarrow> string \<Rightarrow> row" where
  "instability_row ops p name =
     (case attempts (call ops name) [0..<20] (0, 0) of
        (successes, total_latency) \<Rightarrow>
          \<lparr>protocol = p, scenario = ''Network Instability'',
           columns = [(''latency_ms'', if successes > 0 then total_latency / real successes else 0),
                      (''success_rate'', real successes / 20 * 100),
                      (''bytes_sent'', 0)]\<rparr>)"

definition bench_network_instability ::
  "operations \<Rightarrow> printed list \<Rightarrow> (exn + row list) \<times> printed list" where
  "bench_network_instability ops out =
     (Inr [instability_row ops ''REST'' ''rest.echo_async'',
           instability_row ops ''MCP'' ''mcp.chat_turn_unstable''],
      out @ [Benchmarking ''Network Instability''])"

definition chain_row :: "string \<Rightarrow> measurement \<Rightarrow> row" where
  "chain_row p m =
     \<lparr>protocol = p, scenario = ''Tool Chaining'',
      columns = [(''latency_ms'', m_latency_ms m), (''bytes_sent'', real_of_int (m_bytes_sent m)),
                 (''steps'', real (m_count m))]\<rparr>"

text \<open>\<open>bench_tool_chaining\<close>: both workflows under one \<open>except Exception\<close>.\<close>

definition bench_tool_chaining ::
  "operations \<Rightarrow> printed list \<Rightarrow> (exn + row list) \<times> printed list" where
  "bench_tool_chaining ops out =
     (let out1 = out @ [Benchmarking ''Tool Chaining'']
      in case call ops ''rest.chain_workflow'' 0 of
           Inl e \<Rightarrow> (Inr [], out1 @ [BenchFailed ''Tool chaining'' e])
         | Inr m \<Rightarrow>
             (case call ops ''mcp.chain_workflow'' 0 of
                Inl e \<Rightarrow> (Inr [chain_row ''REST'' m], out1 @ [BenchFailed ''Tool chaining'' e])
              | Inr m2 \<Rightarrow> (Inr [chain_row ''REST'' m, chain_row ''MCP'' m2], out1)))"

text \<open>
  \<open>bench_real_world_chat\<close>: \<open>initialize_async\<close> is awaited before the \<open>try\<close>,
  the turns (REST then MCP in each) are under \<open>except Exception\<close>.
\<close>

definition bench_real_world_chat ::
  "operations \<Rightarrow> nat \<Rightarrow> printed list \<Rightarrow> (exn + row list) \<times> printed list" where
  "bench_real_world_chat ops turns out =
     (let out1 = out @ [Benchmarking ''Real-World Chat'']
      in case call ops ''mcp.initialize_async'' 1 of
           Inl e \<Rightarrow> (Inl e, out1)
         | Inr u \<Rightarrow>
             (case run_rows
                     (\<lambda>i. case call ops ''rest.chat_turn_real_world'' i of
                             Inl e \<Rightarrow> (Some e, [])
                           | Inr m \<Rightarrow>
                               (case call ops ''mcp.chat_turn_real_world'' i of
                                  Inl e \<Rightarrow> (Some e, [chat_row ''REST'' ''Real-World Chat'' i m])
                                | Inr m2 \<Rightarrow>
                                    (None, [chat_row ''REST'' ''Real-World Chat'' i m,
                                            chat_row ''MCP'' ''Real-World Chat'' i m2])))
                     [1..<turns + 1] [] of
                (Some e, rows) \<Rightarrow> (Inr rows, out1 @ [BenchFailed ''Real-world chat'' e])
              | (None, rows) \<Rightarrow> (Inr rows, out1)))"

text \<open>
  \<open>all_results.extend(await scenario(...))\<close> in \<open>run_all_benchmarks\<close>, which has no
  \<open>try\<close> of its own: an exception of the scenario ends the batch.
\<close>

definition extend_results ::
  "(exn + row list) \<times> printed list \<Rightarrow> (printed list \<Rightarrow> (exn + row list) \<times> printed list)
     \<Rightarrow> (exn + row list) \<times> printed list" where
  "extend_results acc bench =
     (case acc of
        (Inl e, out) \<Rightarrow> (Inl e, out)
      | (Inr all_results, out) \<Rightarrow>
          (case bench out of
             (Inl e, out1) \<Rightarrow> (Inl e, out1)
           | (Inr results, out1) \<Rightarrow> (Inr (all_results @ results), out1)))"

text \<open>
  \<open>run_all_benchmarks\<close>: the seven scenarios in order, then the results are written
  (the data frame, the CSV file and the report are not modelled) and the completion is
  printed.
\<close>

definition run_all_benchmarks :: "operations \<Rightarrow> (exn + row list) \<times> printed list" where
  "run_all_benchmarks ops =
     (case extend_results (extend_results (extend_results (extend_results (extend_results (extend_results (extend_results (Inr [], [])
             (bench_multi_turn_chat ops 20))
             (bench_concurrency ops 50))
             (bench_long_running ops))
             (bench_stock_ticker ops))
             (bench_network_instability ops))
             (bench_tool_chaining ops))
             (bench_real_world_chat ops 15) of
        (Inl e, out) \<Rightarrow> (Inl e, out)
      | (Inr all_results, out) \<Rightarrow> (Inr all_results, out @ [BatchCompleted]))"

text \<open>
  Two environments: every operation answers; and the REST endpoint cannot be reached,
  so that every operation of the REST client raises the transport's connection error,
  while the MCP endpoint answers.
\<close>

definition answer :: measurement where
  "answer = \<lparr>m_latency_ms = 2, m_bytes_sent = 120, m_count = 3\<rparr>"

definition all_reachable :: operations where
  "all_reachable = \<lparr>call = (\<lambda>name i. Inr answer), span_seconds = (\<lambda>name. 1/2), stock_polls = 3\<rparr>"

definition rest_unreachable :: operations where
  "rest_unreachable =
     \<lparr>call = (\<lambda>name i. if startswith ''rest.'' name
                         then Inl (TransportError ''ConnectError'') else Inr answer),
      span_seconds = (\<lambda>name. 1/2), stock_polls = 3\<rparr>"

definition mcp_unreachable :: operations where
  "mcp_unreachable =
     \<lparr>call = (\<lambda>name i. if startswith ''mcp.'' name
                         then Inl (TransportError ''ConnectError'') else Inr answer),
      span_seconds = (\<lambda>name. 1/2), stock_polls = 3\<rparr>"

section \<open>Properties of the network simulator\<close>

lemma injected_delay_append:
  "injected_delay (xs @ ys) = injected_delay xs + injected_delay ys"
  by (induction xs rule: injected_delay.induct) simp_all

lemma remote_calls_append:
  "remote_calls (xs @ ys) = remote_calls xs @ remote_calls ys"
  by (induction xs rule: remote_calls.induct) simp_all

lemma simulate_network_dropped:
  assumes "packet_loss_rate s > 0" and "rand w (drawn w) < packet_loss_rate s"
  shows "simulate_network s w =
           (Inl (ConnectionError ''Simulated Network Packet Loss''),
            w\<lparr>drawn := Suc (drawn w), trace := trace w @ [Sleep (latency_ms s / 1000)]\<rparr>)"
  using assms by (simp add: simulate_network_def random_random_def sleep_def)

lemma simulate_network_lossless:
  assumes "packet_loss_rate s = 0"
  shows "simulate_network s w = base_latency s w"
  using assms by (simp add: simulate_network_def)

lemma base_latency_ok: "fst (base_latency s w) = Inr ()"
  by (simp add: base_latency_def)

lemma base_latency_drawn: "drawn (snd (base_latency s w)) = drawn w"
  by (simp add: base_latency_def sleep_def)

lemma simulate_network_not_zero_division:
  "fst (simulate_network s w) \<noteq> Inl ZeroDivisionError"
  by (simp add: simulate_network_def base_latency_def random_random_def split: prod.splits)

lemmas concrete_defs =
  conditions_def set_conditions_def init_NetworkSimulator_def quiet_world_def
  constant_draws_def

subsection \<open>C1: a dropped exchange pays the latency before it fails\<close>

text \<open>
  Claim C1 as stated ends with "a dropped exchange is never an instant, zero-delay
  failure". The simulator sleeps for \<open>latency_ms / 1000\<close> seconds whatever that value
  is, so with \<open>latency_ms = 0\<close> (the default of the constructor) and a positive loss
  rate the drop is a zero-delay failure: \<open>asyncio.sleep(0)\<close>, then the raise.
\<close>

theorem dropped_with_zero_latency_is_instant:
  "0 < packet_loss_rate (conditions 0 (1/2) 0)
   \<and> rand (quiet_world (1/10)) (drawn (quiet_world (1/10))) < packet_loss_rate (conditions 0 (1/2) 0)
   \<and> fst (simulate_network (conditions 0 (1/2) 0) (quiet_world (1/10)))
       = Inl (ConnectionError ''Simulated Network Packet Loss'')
   \<and> trace (snd (simulate_network (conditions 0 (1/2) 0) (quiet_world (1/10)))) = [Sleep 0]
   \<and> injected_delay (trace (snd (simulate_network (conditions 0 (1/2) 0) (quiet_world (1/10))))) = 0"
  by (simp add: simulate_network_def concrete_defs random_random_def sleep_def)

text \<open>
  Claim C1 (amended): for every call to \<open>simulate_network\<close> whose loss draw triggers
  (\<open>packet_loss_rate > 0\<close> and the drawn \<open>r < packet_loss_rate\<close>), the call first
  sleeps for \<open>latency_ms / 1000\<close> seconds and only then raises the \<open>ConnectionError\<close>;
  this sleep is the only effect, no remote call is issued by the simulator nor by the
  request it gates (\<open>ping_async\<close>, \<open>echo_async\<close>, \<open>_send_request_async\<close>, which
  fail with the same error and leave the request id untouched); the injected delay is
  \<open>latency_ms\<close>, so the failure is not instant whenever \<open>latency_ms > 0\<close>.
\<close>

theorem dropped_pays_latency:
  assumes "packet_loss_rate s > 0" and "rand w (drawn w) < packet_loss_rate s"
  shows "simulate_network s w =
           (Inl (ConnectionError ''Simulated Network Packet Loss''),
            w\<lparr>drawn := Suc (drawn w), trace := trace w @ [Sleep (latency_ms s / 1000)]\<rparr>)
       \<and> injected_delay (trace (snd (simulate_network s w)))
           = injected_delay (trace w) + max 0 (latency_ms s / 1000)
       \<and> (latency_ms s > 0 \<longrightarrow>
            injected_delay (trace (snd (simulate_network s w)))
              = injected_delay (trace w) + latency_ms s / 1000
          \<and> injected_delay (trace (snd (simulate_network s w))) > injected_delay (trace w))
       \<and> remote_calls (trace (snd (simulate_network s w))) = remote_calls (trace w)
       \<and> ping_async remote s w =
           (Inl (ConnectionError ''Simulated Network Packet Loss''), snd (simulate_network s w))
       \<and> echo_async remote s w =
           (Inl (ConnectionError ''Simulated Network Packet Loss''), snd (simulate_network s w))
       \<and> (network_sim c = s \<longrightarrow> send_request_async remote c m w =
             (Inl (ConnectionError ''Simulated Network Packet Loss''), c, snd (simulate_network s w)))"
  using simulate_network_dropped[OF assms]
  by (simp add: injected_delay_append remote_calls_append ping_async_def echo_async_def
      send_request_async_def)

theorem dropped_pays_latency_witness:
  "0 < packet_loss_rate (conditions 100 (1/10) 0)
   \<and> rand (quiet_world (1/20)) (drawn (quiet_world (1/20))) < packet_loss_rate (conditions 100 (1/10) 0)
   \<and> 0 < latency_ms (conditions 100 (1/10) 0)
   \<and> network_sim lossy_client = conditions 100 (1/10) 0
   \<and> simulate_network (conditions 100 (1/10) 0) (quiet_world (1/20)) =
        (Inl (ConnectionError ''Simulated Network Packet Loss''),
         (quiet_world (1/20))\<lparr>drawn := 1, trace := [Sleep (1/10)]\<rparr>)
   \<and> injected_delay (trace (snd (simulate_network (conditions 100 (1/10) 0) (quiet_world (1/20))))) = 1/10
   \<and> remote_calls (trace (snd (simulate_network (conditions 100 (1/10) 0) (quiet_world (1/20))))) = []
   \<and> fst (ping_async healthy (conditions 100 (1/10) 0) (quiet_world (1/20)))
        = Inl (ConnectionError ''Simulated Network Packet Loss'')
   \<and> fst (echo_async healthy (conditions 100 (1/10) 0) (quiet_world (1/20)))
        = Inl (ConnectionError ''Simulated Network Packet Loss'')
   \<and> fst (send_request_async healthy lossy_client ''tools/call'' (quiet_world (1/20)))
        = Inl (ConnectionError ''Simulated Network Packet Loss'')"
proof -
  have h1: "0 < packet_loss_rate (conditions 100 (1/10) 0)"
    by (simp add: concrete_defs)
  have h2: "rand (quiet_world (1/20)) (drawn (quiet_world (1/20)))
              < packet_loss_rate (conditions 100 (1/10) 0)"
    by (simp add: concrete_defs)
  have h3: "0 < latency_ms (conditions 100 (1/10) 0)"
    by (simp add: concrete_defs)
  have h4: "network_sim lossy_client = conditions 100 (1/10) 0"
    by (simp add: lossy_client_def)
  have t: "trace (quiet_world (1/20)) = []" "drawn (quiet_world (1/20)) = 0"
          "latency_ms (conditions 100 (1/10) 0) = 100"
    by (simp_all add: concrete_defs)
  show ?thesis
    using dropped_pays_latency[OF h1 h2, of healthy lossy_client "''tools/call''"] h1 h2 h3 h4 t
    by simp
qed

subsection \<open>C2: a loss rate of zero never drops\<close>

text \<open>
  Claim C2: for every simulator with \<open>packet_loss_rate = 0\<close>, \<open>simulate_network\<close>
  never raises, whatever the random source would deliver and for any number of trials;
  the draw is guarded behind the rate check, so no random value is even consumed.
\<close>

theorem zero_loss_never_drops:
  assumes "packet_loss_rate s = 0"
  shows "fst (simulate_network s w) = Inr ()
       \<and> drawn (snd (simulate_network s w)) = drawn w
       \<and> set (fst (trials s n w)) \<subseteq> {Inr ()}
       \<and> length (fst (trials s n w)) = n
       \<and> drawn (snd (trials s n w)) = drawn w"
proof -
  have one: "fst (simulate_network s w') = Inr () \<and> drawn (snd (simulate_network s w')) = drawn w'"
    for w'
    using assms by (simp add: simulate_network_lossless base_latency_ok base_latency_drawn)
  have many: "set (fst (trials s n w')) \<subseteq> {Inr ()} \<and> length (fst (trials s n w')) = n
              \<and> drawn (snd (trials s n w')) = drawn w'" for w'
  proof (induction n arbitrary: w')
    case 0
    show ?case by simp
  next
    case (Suc n)
    obtain r w1 where r: "simulate_network s w' = (r, w1)"
      by (cases "simulate_network s w'")
    with one[of w'] have r1: "r = Inr ()" "drawn w1 = drawn w'"
      by simp_all
    obtain rs w2 where t: "trials s n w1 = (rs, w2)"
      by (cases "trials s n w1")
    with Suc.IH[of w1] have "set rs \<subseteq> {Inr ()}" "length rs = n" "drawn w2 = drawn w1"
      by simp_all
    with r r1 t show ?case
      by simp
  qed
  from one many show ?thesis
    by simp
qed

theorem zero_loss_never_drops_witness:
  "packet_loss_rate (conditions 50 0 5) = 0
   \<and> fst (simulate_network (conditions 50 0 5) (quiet_world 0)) = Inr ()
   \<and> drawn (snd (simulate_network (conditions 50 0 5) (quiet_world 0))) = 0
   \<and> set (fst (trials (conditions 50 0 5) 20 (quiet_world 0))) \<subseteq> {Inr ()}
   \<and> length (fst (trials (conditions 50 0 5) 20 (quiet_world 0))) = 20"
proof -
  have h: "packet_loss_rate (conditions 50 0 5) = 0"
    by (simp add: concrete_defs)
  have d: "drawn (quiet_world 0) = 0"
    by (simp add: concrete_defs)
  show ?thesis
    using zero_loss_never_drops[OF h, of "quiet_world 0" 20] h d by simp
qed

subsection \<open>C9: a loss rate of one always drops\<close>

text \<open>
  Claim C9: for every simulator with \<open>packet_loss_rate = 1\<close>, \<open>simulate_network\<close>
  raises the loss error for every value \<open>r\<close> of the uniform draw in \<open>[0, 1)\<close>.
\<close>

theorem full_loss_always_drops:
  assumes "packet_loss_rate s = 1" and "0 \<le> rand w (drawn w)" and "rand w (drawn w) < 1"
  shows "fst (simulate_network s w) = Inl (ConnectionError ''Simulated Network Packet Loss'')"
  using assms by (simp add: simulate_network_def random_random_def)

theorem full_loss_always_drops_witness:
  "packet_loss_rate (conditions 100 1 0) = 1
   \<and> 0 \<le> rand (quiet_world (999/1000)) (drawn (quiet_world (999/1000)))
   \<and> rand (quiet_world (999/1000)) (drawn (quiet_world (999/1000))) < 1
   \<and> fst (simulate_network (conditions 100 1 0) (quiet_world (999/1000)))
       = Inl (ConnectionError ''Simulated Network Packet Loss'')"
proof -
  have h1: "packet_loss_rate (conditions 100 1 0) = 1"
    by (simp add: concrete_defs)
  have h2: "0 \<le> rand (quiet_world (999/1000)) (drawn (quiet_world (999/1000)))"
    by (simp add: concrete_defs)
  have h3: "rand (quiet_world (999/1000)) (drawn (quiet_world (999/1000))) < 1"
    by (simp add: concrete_defs)
  show ?thesis
    using full_loss_always_drops[OF h1 h2 h3] h1 h2 h3 by simp
qed

subsection \<open>C3: no bandwidth cap, no transfer delay\<close>

lemma simulate_transfer_unlimited:
  assumes "bandwidth_mbps s = 0"
  shows "simulate_transfer s n w = simulate_network s w"
  using assms by (simp add: simulate_transfer_def split: prod.splits sum.splits)

lemma simulate_transfer_capped:
  assumes "bandwidth_mbps s > 0"
  shows "simulate_transfer s n w =
          (case simulate_network s w of
             (Inl e, w1) \<Rightarrow> (Inl e, w1)
           | (Inr u, w1) \<Rightarrow>
               (Inr (), sleep (real_of_int (n * 8) / (bandwidth_mbps s * 1000000)) w1))"
  using assms by (simp add: simulate_transfer_def py_truediv_def split: prod.splits sum.splits)

text \<open>
  Claim C3: for every simulator with \<open>bandwidth_mbps = 0\<close> and every byte count
  \<open>n \<ge> 0\<close>, \<open>simulate_transfer n\<close> does exactly what \<open>simulate_network\<close> does
  (same outcome, same sleeps, so no delay beyond the link's own) and it does not raise
  \<open>ZeroDivisionError\<close>: the bandwidth branch, which holds the division, is not taken.
\<close>

theorem zero_bandwidth_adds_nothing:
  assumes "bandwidth_mbps s = 0" and "0 \<le> n"
  shows "simulate_transfer s n w = simulate_network s w
       \<and> extra_delay s n w = 0
       \<and> fst (simulate_transfer s n w) \<noteq> Inl ZeroDivisionError"
  using simulate_transfer_unlimited[OF assms(1), of n w] simulate_network_not_zero_division[of s w]
  by (simp add: extra_delay_def)

theorem zero_bandwidth_adds_nothing_witness:
  "bandwidth_mbps (conditions 100 0 0) = 0 \<and> (0::int) \<le> 1000000
   \<and> simulate_transfer (conditions 100 0 0) 1000000 (quiet_world 0)
       = (Inr (), (quiet_world 0)\<lparr>trace := [Sleep (1/10)]\<rparr>)
   \<and> extra_delay (conditions 100 0 0) 1000000 (quiet_world 0) = 0
   \<and> fst (simulate_transfer (conditions 100 0 0) 1000000 (quiet_world 0)) \<noteq> Inl ZeroDivisionError"
proof -
  have h1: "bandwidth_mbps (conditions 100 0 0) = 0"
    by (simp add: concrete_defs)
  have h2: "(0::int) \<le> 1000000"
    by simp
  have n: "simulate_network (conditions 100 0 0) (quiet_world 0)
             = (Inr (), (quiet_world 0)\<lparr>trace := [Sleep (1/10)]\<rparr>)"
    by (simp add: simulate_network_def base_latency_def sleep_def concrete_defs)
  show ?thesis
    using zero_bandwidth_adds_nothing[OF h1 h2, of "quiet_world 0"] h1 n by simp
qed

subsection \<open>C4: the transfer delay under a bandwidth cap\<close>

text \<open>
  Claim C4 as stated gives, for \<open>bandwidth_mbps = 8\<close> and 100 bytes, an extra delay
  of 100 seconds. The code divides the 800 bits by \<open>8 * 1_000_000\<close> bits per second:
  the extra delay is one ten-thousandth of a second.
\<close>

theorem hundred_bytes_at_8mbps_not_100_seconds:
  "simulate_transfer (conditions 0 0 8) 100 (quiet_world 0)
     = (Inr (), (quiet_world 0)\<lparr>trace := [Sleep (1/10000)]\<rparr>)
   \<and> extra_delay (conditions 0 0 8) 100 (quiet_world 0) = 1/10000
   \<and> extra_delay (conditions 0 0 8) 100 (quiet_world 0) \<noteq> 100"
proof -
  have n: "simulate_network (conditions 0 0 8) (quiet_world 0) = (Inr (), quiet_world 0)"
    by (simp add: simulate_network_def base_latency_def concrete_defs)
  have b: "bandwidth_mbps (conditions 0 0 8) = 8"
    by (simp add: concrete_defs)
  have t: "simulate_transfer (conditions 0 0 8) 100 (quiet_world 0)
             = (Inr (), (quiet_world 0)\<lparr>trace := [Sleep (1/10000)]\<rparr>)"
    using n b by (simp add: simulate_transfer_def py_truediv_def sleep_def quiet_world_def)
  show ?thesis
    using n t by (simp add: extra_delay_def quiet_world_def)
qed

text \<open>
  Claim C4 (amended): for every simulator with \<open>bandwidth_mbps > 0\<close> and every byte
  count \<open>n \<ge> 0\<close>, \<open>simulate_transfer n\<close> first performs \<open>simulate_network\<close>; if
  that raises, the transfer raises the same error with nothing added; if it succeeds,
  the transfer sleeps once more, for exactly \<open>(n * 8) / (bandwidth_mbps * 1_000_000)\<close>
  seconds. With \<open>bandwidth_mbps = 8\<close> and \<open>n = 100\<close> the extra delay is 0.0001
  seconds.
\<close>

theorem transfer_delay_formula:
  assumes "bandwidth_mbps s > 0" and "0 \<le> n"
  shows "(\<forall>e. fst (simulate_network s w) = Inl e \<longrightarrow>
            simulate_transfer s n w = simulate_network s w)
       \<and> (fst (simulate_network s w) = Inr () \<longrightarrow>
            simulate_transfer s n w =
              (Inr (), sleep (real_of_int (n * 8) / (bandwidth_mbps s * 1000000))
                         (snd (simulate_network s w)))
          \<and> extra_delay s n w = real_of_int (n * 8) / (bandwidth_mbps s * 1000000)
          \<and> (bandwidth_mbps s = 8 \<and> n = 100 \<longrightarrow> extra_delay s n w = 1 / 10000))"
proof -
  let ?d = "real_of_int (n * 8) / (bandwidth_mbps s * 1000000)"
  obtain r w1 where r: "simulate_network s w = (r, w1)"
    by (cases "simulate_network s w")
  have d: "0 \<le> ?d"
    using assms by simp
  have failing: "simulate_transfer s n w = simulate_network s w" if "r = Inl e" for e
    using that r by (simp add: simulate_transfer_capped[OF assms(1)])
  have passing: "simulate_transfer s n w = (Inr (), sleep ?d w1)" if "r = Inr ()"
    using that r by (simp add: simulate_transfer_capped[OF assms(1)])
  have extra: "extra_delay s n w = ?d" if "r = Inr ()"
    using passing[OF that] r d by (simp add: extra_delay_def sleep_def injected_delay_append)
  have example: "extra_delay s n w = 1 / 10000"
    if "r = Inr ()" and "bandwidth_mbps s = 8" and "n = 100"
    using extra[OF that(1)] that(2,3) by simp
  from failing passing extra example r show ?thesis
    by simp
qed

theorem transfer_delay_formula_witness:
  "0 < bandwidth_mbps (conditions 50 0 5) \<and> (0::int) \<le> 2500
   \<and> fst (simulate_network (conditions 50 0 5) (quiet_world 0)) = Inr ()
   \<and> simulate_transfer (conditions 50 0 5) 2500 (quiet_world 0)
       = (Inr (), (quiet_world 0)\<lparr>trace := [Sleep (1/20), Sleep (1/250)]\<rparr>)
   \<and> extra_delay (conditions 50 0 5) 2500 (quiet_world 0) = 1/250
   \<and> bandwidth_mbps (conditions 0 0 8) = 8
   \<and> fst (simulate_network (conditions 0 0 8) (quiet_world 0)) = Inr ()
   \<and> extra_delay (conditions 0 0 8) 100 (quiet_world 0) = 1/10000
   \<and> fst (simulate_network (conditions 50 1 5) (quiet_world 0))
       = Inl (ConnectionError ''Simulated Network Packet Loss'')
   \<and> simulate_transfer (conditions 50 1 5) 2500 (quiet_world 0)
       = simulate_network (conditions 50 1 5) (quiet_world 0)"
proof -
  have h1: "0 < bandwidth_mbps (conditions 50 0 5)" "bandwidth_mbps (conditions 50 0 5) = 5"
    by (simp_all add: concrete_defs)
  have h2: "(0::int) \<le> 2500" "(0::int) \<le> 100"
    by simp_all
  have h3: "0 < bandwidth_mbps (conditions 0 0 8)" "bandwidth_mbps (conditions 0 0 8) = 8"
    by (simp_all add: concrete_defs)
  have h4: "0 < bandwidth_mbps (conditions 50 1 5)"
    by (simp add: concrete_defs)
  have n1: "simulate_network (conditions 50 0 5) (quiet_world 0)
              = (Inr (), (quiet_world 0)\<lparr>trace := [Sleep (1/20)]\<rparr>)"
    by (simp add: simulate_network_def base_latency_def sleep_def concrete_defs)
  have n2: "simulate_network (conditions 0 0 8) (quiet_world 0) = (Inr (), quiet_world 0)"
    by (simp add: simulate_network_def base_latency_def concrete_defs)
  have n3: "fst (simulate_network (conditions 50 1 5) (quiet_world 0))
              = Inl (ConnectionError ''Simulated Network Packet Loss'')"
    by (simp add: simulate_network_def random_random_def concrete_defs)
  have a: "simulate_transfer (conditions 50 0 5) 2500 (quiet_world 0)
             = (Inr (), (quiet_world 0)\<lparr>trace := [Sleep (1/20), Sleep (1/250)]\<rparr>)
           \<and> extra_delay (conditions 50 0 5) 2500 (quiet_world 0) = 1/250"
    using transfer_delay_formula[OF h1(1) h2(1), of "quiet_world 0"] n1 h1(2)
    by (simp add: sleep_def)
  have b: "extra_delay (conditions 0 0 8) 100 (quiet_world 0) = 1/10000"
    using transfer_delay_formula[OF h3(1) h2(2), of "quiet_world 0"] n2 h3(2)
    by simp
  have c: "simulate_transfer (conditions 50 1 5) 2500 (quiet_world 0)
             = simulate_network (conditions 50 1 5) (quiet_world 0)"
    using transfer_delay_formula[OF h4 h2(1), of "quiet_world 0"] n3
    by simp
  show ?thesis
    using a b c h1 h2 h3 n1 n2 n3 by simp
qed

section \<open>Properties of the event stream consumers\<close>

subsection \<open>The loop of listen\_for\_events, one read at a time\<close>

lemma listen_loop_eof:
  "fst (s i) = Eof \<Longrightarrow> listen_loop loads duration start s i events = Some (Inr events, i)"
  by (subst listen_loop.simps) (auto split: prod.splits)

lemma listen_loop_raise:
  "fst (s i) = Raise e \<Longrightarrow>
   listen_loop loads duration start s i events
     = (if e = ReadTimeout then Some (Inr events, i) else Some (Inl e, i))"
  by (subst listen_loop.simps) (auto split: prod.splits)

lemma listen_loop_over_budget:
  "over_budget duration start (s i) \<Longrightarrow>
   listen_loop loads duration start s i events = Some (Inr events, i)"
  by (subst listen_loop.simps) (simp add: over_budget_def split: prod.splits read.splits)

lemma on_data_line_events:
  "on_data loads (drop 6 line) events =
     (events @ (case loads (drop 6 line) of None \<Rightarrow> [] | Some msg \<Rightarrow> [msg]),
      (case loads (drop 6 line) of None \<Rightarrow> False | Some msg \<Rightarrow> status_completed msg = Inr True))"
  by (simp add: on_data_def split: option.splits sum.splits)

lemma listen_loop_continue:
  assumes "in_budget duration start (s i)" and "\<not> terminal loads (fst (s i))"
  shows "listen_loop loads duration start s i events
           = listen_loop loads duration start s (Suc i) (events @ line_events loads (fst (s i)))"
  using assms
  by (subst listen_loop.simps)
     (auto simp: in_budget_def on_data_line_events split: prod.splits read.splits option.splits)

lemma listen_loop_terminal:
  assumes "in_budget duration start (s i)" and "terminal loads (fst (s i))"
  shows "listen_loop loads duration start s i events
           = Some (Inr (events @ line_events loads (fst (s i))), i)"
  using assms
  by (subst listen_loop.simps)
     (auto simp: in_budget_def on_data_line_events split: prod.splits read.splits option.splits)

lemma collected_step:
  "i < k \<Longrightarrow> collected loads s i k = line_events loads (fst (s i)) @ collected loads s (Suc i) k"
  by (simp add: collected_def upt_conv_Cons)

lemma collected_snoc:
  "i \<le> k \<Longrightarrow> collected loads s i (Suc k) = collected loads s i k @ line_events loads (fst (s k))"
  by (simp add: collected_def)

lemma collected_empty: "collected loads s i i = []"
  by (simp add: collected_def)

lemma listen_loop_run:
  assumes "\<forall>j. i \<le> j \<and> j < i + d \<longrightarrow> in_budget duration start (s j) \<and> \<not> terminal loads (fst (s j))"
  shows "listen_loop loads duration start s i events
           = listen_loop loads duration start s (i + d) (events @ collected loads s i (i + d))"
  using assms
proof (induction d arbitrary: i events)
  case 0
  show ?case by (simp add: collected_empty)
next
  case (Suc d)
  have here: "in_budget duration start (s i)" "\<not> terminal loads (fst (s i))"
    using Suc.prems by simp_all
  have rest: "\<forall>j. Suc i \<le> j \<and> j < Suc i + d \<longrightarrow>
                 in_budget duration start (s j) \<and> \<not> terminal loads (fst (s j))"
    using Suc.prems by simp
  have "listen_loop loads duration start s i events
          = listen_loop loads duration start s (Suc i) (events @ line_events loads (fst (s i)))"
    using here by (rule listen_loop_continue)
  also have "\<dots> = listen_loop loads duration start s (Suc i + d)
                     ((events @ line_events loads (fst (s i))) @ collected loads s (Suc i) (Suc i + d))"
    by (rule Suc.IH[OF rest])
  finally show ?case
    using collected_step[of i "Suc (i + d)" loads s] by simp
qed

lemma listen_loop_raises:
  assumes "listen_loop loads duration start s i events = Some y"
  shows "\<forall>e n. y = (Inl e, n) \<longrightarrow> fst (s n) = Raise e \<and> e \<noteq> ReadTimeout \<and> i \<le> n"
proof (rule listen_loop.raw_induct[where P = "\<lambda>loads duration start s i events y.
          \<forall>e n. y = (Inl e, n) \<longrightarrow> fst (s n) = Raise e \<and> e \<noteq> ReadTimeout \<and> i \<le> n", OF _ assms], goal_cases)
  case (1 loop loads duration start s i events y)
  obtain r now where r: "s i = (r, now)" by (cases "s i")
  show ?case
  proof (cases r)
    case (Line line)
    show ?thesis
    proof (cases "now - start > duration")
      case True
      with r Line 1(2) show ?thesis by auto
    next
      case False
      note budget = this
      show ?thesis
      proof (cases "startswith ''data: '' line")
        case True
        obtain ev' fin where od: "on_data loads (drop 6 line) events = (ev', fin)"
          by (cases "on_data loads (drop 6 line) events")
        show ?thesis
        proof (cases fin)
          case True
          with r Line budget \<open>startswith ''data: '' line\<close> od 1(2) show ?thesis by auto
        next
          case False
          with r Line budget \<open>startswith ''data: '' line\<close> od 1(2)
          have "loop loads duration start s (Suc i) ev' = Some y" by simp
          from 1(1)[OF this] show ?thesis by auto
        qed
      next
        case False
        with r Line budget 1(2) have "loop loads duration start s (Suc i) events = Some y" by simp
        from 1(1)[OF this] show ?thesis by auto
      qed
    qed
  next
    case Eof
    with r 1(2) show ?thesis by auto
  next
    case (Raise e)
    with r 1(2) show ?thesis by (auto split: if_splits)
  qed
qed

subsection \<open>The decoder accepts the server's session id\<close>






subsection \<open>The loop of connect\_sse\<close>


subsection \<open>Whole runs of listen\_for\_events\<close>

lemma all_below_list: "(\<forall>j<k. P j) = list_all P [0..<k]"
  by (auto simp: list_all_iff)

lemma collected_cong:
  assumes "\<forall>j<k. s' j = s j"
  shows "collected loads s' 0 k = collected loads s 0 k"
proof -
  have "map (\<lambda>j. line_events loads (fst (s' j))) [0..<k]
          = map (\<lambda>j. line_events loads (fst (s j))) [0..<k]"
    using assms by (intro map_cong) simp_all
  then show ?thesis
    unfolding collected_def by (rule arg_cong)
qed

lemma listen_until_stop:
  assumes "\<forall>j<k. in_budget duration start (s j) \<and> \<not> terminal loads (fst (s j))"
  shows "listen_for_events loads duration start s
           = listen_loop loads duration start s k (collected loads s 0 k)"
  using listen_loop_run[of 0 k duration start s loads "[]"] assms
  by (simp add: listen_for_events_def)

lemma listen_until_terminal:
  assumes "\<forall>j<k. in_budget duration start (s j) \<and> \<not> terminal loads (fst (s j))"
    and "in_budget duration start (s k)" and "terminal loads (fst (s k))"
  shows "listen_for_events loads duration start s = Some (Inr (collected loads s 0 (Suc k)), k)"
  using listen_until_stop[OF assms(1)]
    listen_loop_terminal[of duration start s k loads "collected loads s 0 k"] assms(2,3)
  by (simp add: collected_snoc)

subsection \<open>C5: consumption stops at the terminal event\<close>

text \<open>
  Claim C5 as stated holds for every stream of parseable events. The loop checks the
  duration budget before it looks at a line, so a terminal event that is delivered
  after the budget is spent is never read: with the default budget of five seconds and
  the three events delivered after 1, 6 and 7 seconds, only the first one is returned.
\<close>

theorem late_terminal_event_is_not_reached:
  "collected json_loads late_stream 0 3 = [event_running 10, event_running 50, event_completed]
   \<and> terminal json_loads (fst (late_stream 2))
   \<and> listen_for_events json_loads 5 0 late_stream = Some (Inr [event_running 10], 1)"
  by code_simp

text \<open>
  Claim C5 (amended): for every stream whose reads up to the first terminal event (a
  data line whose decoded message has \<open>params.status = "completed"\<close>) all deliver
  their line within the duration budget, \<open>listen_for_events\<close> stops at that event and
  returns the events decoded so far, up to and including the terminal one; the terminal
  read is its last read, and whatever the stream holds behind it has no influence on
  the result. For the stream emitting progress 10, progress 50 and the completed status
  it returns exactly those three events.
\<close>

theorem terminal_event_stops_consumption:
  assumes "\<forall>j<k. in_budget duration start (s j) \<and> \<not> terminal loads (fst (s j))"
    and "in_budget duration start (s k)" and "terminal loads (fst (s k))"
  shows "listen_for_events loads duration start s = Some (Inr (collected loads s 0 (Suc k)), k)
       \<and> (\<exists>msg. collected loads s 0 (Suc k) = collected loads s 0 k @ [msg]
                 \<and> status_completed msg = Inr True)
       \<and> (\<forall>s'. (\<forall>j<Suc k. s' j = s j) \<longrightarrow>
             listen_for_events loads duration start s' = listen_for_events loads duration start s)"
proof -
  have main: "listen_for_events loads duration start s = Some (Inr (collected loads s 0 (Suc k)), k)"
    by (rule listen_until_terminal[OF assms])
  obtain line where line: "fst (s k) = Line line"
    using assms(3) by (cases "fst (s k)") simp_all
  with assms(3) obtain msg where msg: "startswith ''data: '' line"
      "loads (drop 6 line) = Some msg" "status_completed msg = Inr True"
    by (auto split: option.splits)
  have last: "collected loads s 0 (Suc k) = collected loads s 0 k @ [msg]"
    using line msg by (simp add: collected_snoc)
  have same: "listen_for_events loads duration start s' = listen_for_events loads duration start s"
    if eq: "\<forall>j<Suc k. s' j = s j" for s'
  proof -
    have a: "\<forall>j<k. in_budget duration start (s' j) \<and> \<not> terminal loads (fst (s' j))"
      using assms(1) eq by simp
    have b: "in_budget duration start (s' k)" "terminal loads (fst (s' k))"
      using assms(2,3) eq by simp_all
    show ?thesis
      using listen_until_terminal[OF a b] collected_cong[OF eq] main by simp
  qed
  from main last msg(3) same show ?thesis
    by blast
qed

theorem terminal_event_stops_consumption_witness:
  "list_all (\<lambda>j. in_budget 5 0 (three_events j) \<and> \<not> terminal json_loads (fst (three_events j))) [0..<4]
   \<and> in_budget 5 0 (three_events 4) \<and> terminal json_loads (fst (three_events 4))
   \<and> list_all (\<lambda>j. three_events_cut j = three_events j) [0..<Suc 4]
   \<and> listen_for_events json_loads 5 0 three_events
       = Some (Inr [event_running 10, event_running 50, event_completed], 4)
   \<and> listen_for_events json_loads 5 0 three_events_cut
       = Some (Inr [event_running 10, event_running 50, event_completed], 4)"
proof -
  have h1: "\<forall>j<4. in_budget 5 0 (three_events j) \<and> \<not> terminal json_loads (fst (three_events j))"
    unfolding all_below_list by code_simp
  have h2: "in_budget 5 0 (three_events 4)"
    by code_simp
  have h3: "terminal json_loads (fst (three_events 4))"
    by code_simp
  have h4: "\<forall>j<Suc 4. three_events_cut j = three_events j"
    unfolding all_below_list by code_simp
  have c: "collected json_loads three_events 0 (Suc 4)
             = [event_running 10, event_running 50, event_completed]"
    by code_simp
  show ?thesis
    using terminal_event_stops_consumption[OF h1 h2 h3] h1 h2 h3 h4 c
    by (simp add: all_below_list)
qed

subsection \<open>C6: malformed events\<close>

text \<open>
  Claim C6 as stated says that a malformed event is not appended to the returned
  events. That holds for a payload the decoder refuses. A payload that decodes but is
  no event object (a bare number, a list, an object whose \<open>params\<close> is \<open>null\<close>)
  is appended first, and only then \<open>msg.get\<close> raises the \<open>AttributeError\<close>
  that the bare \<open>except\<close> swallows: the number \<open>5\<close> is returned among the events,
  and so is the session id the bundled server sends as its first data line.
\<close>

theorem decodable_non_event_is_appended:
  "json_loads ''5'' = Some (JInt 5)
   \<and> status_completed (JInt 5) = Inl AttributeError
   \<and> on_data json_loads ''5'' [] = ([JInt 5], False)
   \<and> listen_for_events json_loads 5 0 number_stream
       = Some (Inr [event_running 10, JInt 5, event_completed], 2)
   \<and> listen_for_events json_loads 5 0 task_stream
       = Some (Inr [JFloat ''1762213345.1234567'', event_running 10, event_completed], 5)"
  by code_simp

text \<open>
  Claim C6 (amended): a malformed event never ends the consumption and never raises.
  A data line whose payload the decoder refuses is silently skipped: it appends
  nothing, and the loop goes on with the next read with the events unchanged. A data
  line whose payload decodes to something that is no event object is appended to the
  events as it is; the \<open>AttributeError\<close> of the status check is swallowed and the
  loop goes on with the next read. In both cases, when the budget is already spent the
  loop stops there, as for any line, returning the events unchanged; and the only
  exception \<open>listen_for_events\<close> lets escape is one that a later read of the
  transport raises.
\<close>

theorem malformed_event_handling:
  assumes "fst (s i) = Line line" and "startswith ''data: '' line"
  shows "(loads (drop 6 line) = None \<longrightarrow>
            on_data loads (drop 6 line) events = (events, False)
          \<and> line_events loads (fst (s i)) = []
          \<and> (in_budget duration start (s i) \<longrightarrow>
                listen_loop loads duration start s i events
                  = listen_loop loads duration start s (Suc i) events))
       \<and> (\<forall>msg. loads (drop 6 line) = Some msg \<and> status_completed msg = Inl AttributeError \<longrightarrow>
            on_data loads (drop 6 line) events = (events @ [msg], False)
          \<and> line_events loads (fst (s i)) = [msg]
          \<and> (in_budget duration start (s i) \<longrightarrow>
                listen_loop loads duration start s i events
                  = listen_loop loads duration start s (Suc i) (events @ [msg])))
       \<and> (over_budget duration start (s i) \<longrightarrow>
            listen_loop loads duration start s i events = Some (Inr events, i))
       \<and> (\<forall>e n. listen_loop loads duration start s i events = Some (Inl e, n) \<longrightarrow>
            i < n \<and> fst (s n) = Raise e \<and> e \<noteq> ReadTimeout)"
proof -
  have step: "listen_loop loads duration start s i events
                = listen_loop loads duration start s (Suc i) (events @ line_events loads (fst (s i)))"
    if "in_budget duration start (s i)" and "\<not> terminal loads (fst (s i))"
    using that by (rule listen_loop_continue)
  have refused: "on_data loads (drop 6 line) events = (events, False)
                 \<and> line_events loads (fst (s i)) = []
                 \<and> (in_budget duration start (s i) \<longrightarrow>
                       listen_loop loads duration start s i events
                         = listen_loop loads duration start s (Suc i) events)"
    if none: "loads (drop 6 line) = None"
  proof -
    have a: "line_events loads (fst (s i)) = []"
      using assms none by simp
    have b: "\<not> terminal loads (fst (s i))"
      using assms none by simp
    have c: "on_data loads (drop 6 line) events = (events, False)"
      using none by (simp add: on_data_def)
    have d: "listen_loop loads duration start s i events
               = listen_loop loads duration start s (Suc i) events"
      if "in_budget duration start (s i)"
      using step[OF that b] by (simp only: a append_Nil2)
    from a c d show ?thesis
      by simp
  qed
  have kept: "on_data loads (drop 6 line) events = (events @ [msg], False)
              \<and> line_events loads (fst (s i)) = [msg]
              \<and> (in_budget duration start (s i) \<longrightarrow>
                    listen_loop loads duration start s i events
                      = listen_loop loads duration start s (Suc i) (events @ [msg]))"
    if some: "loads (drop 6 line) = Some msg" and bad: "status_completed msg = Inl AttributeError"
    for msg
  proof -
    have a: "line_events loads (fst (s i)) = [msg]"
      using assms some by simp
    have b: "\<not> terminal loads (fst (s i))"
      using assms some bad by simp
    have c: "on_data loads (drop 6 line) events = (events @ [msg], False)"
      using some bad by (simp add: on_data_def)
    have d: "listen_loop loads duration start s i events
               = listen_loop loads duration start s (Suc i) (events @ [msg])"
      if "in_budget duration start (s i)"
      using step[OF that b] by (simp only: a)
    from a c d show ?thesis
      by simp
  qed
  have stop: "listen_loop loads duration start s i events = Some (Inr events, i)"
    if "over_budget duration start (s i)"
    using that by (rule listen_loop_over_budget)
  have escape: "i < n \<and> fst (s n) = Raise e \<and> e \<noteq> ReadTimeout"
    if "listen_loop loads duration start s i events = Some (Inl e, n)" for e n
  proof -
    from listen_loop_raises[OF that] have r: "fst (s n) = Raise e" "e \<noteq> ReadTimeout" "i \<le> n"
      by simp_all
    with assms(1) have "n \<noteq> i"
      by auto
    with r show ?thesis
      by simp
  qed
  from refused kept stop escape show ?thesis
    by blast
qed

theorem malformed_event_handling_witness:
  "fst (garbled_stream 1) = Line ''data: {oops'' \<and> startswith ''data: '' ''data: {oops''
   \<and> json_loads (drop 6 ''data: {oops'') = None
   \<and> in_budget 5 0 (garbled_stream 1)
   \<and> on_data json_loads (drop 6 ''data: {oops'') [event_running 10] = ([event_running 10], False)
   \<and> listen_loop json_loads 5 0 garbled_stream 1 [event_running 10]
       = listen_loop json_loads 5 0 garbled_stream 2 [event_running 10]
   \<and> listen_for_events json_loads 5 0 garbled_stream
       = Some (Inr [event_running 10, event_completed], 2)
   \<and> fst (number_stream 1) = Line ''data: 5'' \<and> startswith ''data: '' ''data: 5''
   \<and> json_loads (drop 6 ''data: 5'') = Some (JInt 5)
   \<and> status_completed (JInt 5) = Inl AttributeError
   \<and> in_budget 5 0 (number_stream 1)
   \<and> on_data json_loads (drop 6 ''data: 5'') [event_running 10] = ([event_running 10, JInt 5], False)
   \<and> listen_loop json_loads 5 0 number_stream 1 [event_running 10]
       = listen_loop json_loads 5 0 number_stream 2 [event_running 10, JInt 5]
   \<and> listen_for_events json_loads 5 0 number_stream
       = Some (Inr [event_running 10, JInt 5, event_completed], 2)"
proof -
  have g1: "fst (garbled_stream 1) = Line ''data: {oops''"
    by code_simp
  have g2: "startswith ''data: '' ''data: {oops''"
    by code_simp
  have g3: "json_loads (drop 6 ''data: {oops'') = None"
    by code_simp
  have g4: "in_budget 5 0 (garbled_stream 1)"
    by code_simp
  have g5: "listen_for_events json_loads 5 0 garbled_stream
              = Some (Inr [event_running 10, event_completed], 2)"
    by code_simp
  have n1: "fst (number_stream 1) = Line ''data: 5''"
    by code_simp
  have n2: "startswith ''data: '' ''data: 5''"
    by code_simp
  have n3: "json_loads (drop 6 ''data: 5'') = Some (JInt 5)"
    by code_simp
  have n4: "status_completed (JInt 5) = Inl AttributeError"
    by code_simp
  have n5: "in_budget 5 0 (number_stream 1)"
    by code_simp
  have n6: "listen_for_events json_loads 5 0 number_stream
              = Some (Inr [event_running 10, JInt 5, event_completed], 2)"
    by code_simp
  have garbled: "on_data json_loads (drop 6 ''data: {oops'') [event_running 10]
                   = ([event_running 10], False)
                 \<and> listen_loop json_loads 5 0 garbled_stream 1 [event_running 10]
                   = listen_loop json_loads 5 0 garbled_stream (Suc 1) [event_running 10]"
    using malformed_event_handling[where s = garbled_stream and i = 1 and loads = json_loads
        and events = "[event_running 10]" and duration = 5 and start = 0, OF g1 g2] g3 g4
    by simp
  have number: "on_data json_loads (drop 6 ''data: 5'') [event_running 10]
                  = ([event_running 10, JInt 5], False)
                \<and> listen_loop json_loads 5 0 number_stream 1 [event_running 10]
                  = listen_loop json_loads 5 0 number_stream (Suc 1) [event_running 10, JInt 5]"
    using malformed_event_handling[where s = number_stream and i = 1 and loads = json_loads
        and events = "[event_running 10]" and duration = 5 and start = 0, OF n1 n2] n3 n4 n5
    by simp
  have two: "Suc 1 = 2"
    by simp
  show ?thesis
    using garbled number g1 g2 g3 g4 g5 n1 n2 n3 n4 n5 n6 unfolding two
    by simp
qed

subsection \<open>C7: consumption bounded by the duration budget\<close>

lemma in_budget_time:
  assumes "in_budget duration start r"
  shows "snd r - start \<le> duration"
  using assms by (cases r) (auto simp: in_budget_def split: read.splits)

lemma over_budget_time:
  assumes "over_budget duration start r"
  shows "snd r - start > duration"
  using assms by (cases r) (auto simp: over_budget_def split: read.splits)

text \<open>
  Claim C7 as stated promises a return within the budget plus a small overhead, and no
  error, for every stream without a terminal event. The budget is checked only when a
  line arrives: with a budget of one second, a line after half a second and the next
  line after twenty seconds, the call returns after twenty seconds. And only the read
  timeout is caught: the error of an endpoint that cannot be reached escapes.
\<close>

theorem budget_is_checked_only_when_a_line_arrives:
  "\<not> terminal json_loads (fst (slow_stream 0)) \<and> \<not> terminal json_loads (fst (slow_stream 1))
   \<and> \<not> terminal json_loads (fst (slow_stream 2))
   \<and> listen_for_events json_loads 1 0 slow_stream = Some (Inr [event_running 10], 1)
   \<and> returned_at slow_stream (Inr [event_running 10], 1) = 20
   \<and> listen_for_events json_loads 1 0 unreachable = Some (Inl (TransportError ''ConnectError''), 0)"
  by code_simp

text \<open>
  Claim C7 (amended): for every duration budget \<open>D\<close> and every stream that emits no
  terminal event, \<open>listen_for_events\<close> stops at the first read that does not deliver a
  line within the budget. If that read delivers a line more than \<open>D\<close> seconds after
  the start, or finds the stream closed, or times out, the call returns the events
  decoded from the lines read before it (possibly none) and raises nothing: exceeding
  the budget or the read timeout is not a failure. The call returns when that read
  completes; when the budget stopped it, that is later than \<open>start + D\<close> by at most
  the time this last read waited for its line. A transport error other than the read
  timeout is raised to the caller.
\<close>

theorem budget_stops_consumption:
  assumes "\<forall>j<k. in_budget duration start (s j) \<and> \<not> terminal loads (fst (s j))"
  shows "(over_budget duration start (s k) \<or> fst (s k) = Eof \<or> fst (s k) = Raise ReadTimeout \<longrightarrow>
            listen_for_events loads duration start s = Some (Inr (collected loads s 0 k), k)
          \<and> returned_at s (Inr (collected loads s 0 k), k) = snd (s k))
       \<and> (over_budget duration start (s k) \<and> 0 < k \<longrightarrow>
            duration < snd (s k) - start
          \<and> snd (s k) - (start + duration) \<le> snd (s k) - snd (s (k - 1)))
       \<and> (\<forall>e. fst (s k) = Raise e \<and> e \<noteq> ReadTimeout \<longrightarrow>
            listen_for_events loads duration start s = Some (Inl e, k))"
proof -
  have run: "listen_for_events loads duration start s
               = listen_loop loads duration start s k (collected loads s 0 k)"
    by (rule listen_until_stop[OF assms])
  have stop: "listen_for_events loads duration start s = Some (Inr (collected loads s 0 k), k)"
    if "over_budget duration start (s k) \<or> fst (s k) = Eof \<or> fst (s k) = Raise ReadTimeout"
    using that run
      listen_loop_over_budget[of duration start s k loads "collected loads s 0 k"]
      listen_loop_eof[of s k loads duration start "collected loads s 0 k"]
      listen_loop_raise[of s k ReadTimeout loads duration start "collected loads s 0 k"]
    by auto
  have late: "duration < snd (s k) - start
              \<and> snd (s k) - (start + duration) \<le> snd (s k) - snd (s (k - 1))"
    if "over_budget duration start (s k)" and "0 < k"
  proof -
    have "in_budget duration start (s (k - 1))"
      using assms that(2) by simp
    then have "snd (s (k - 1)) - start \<le> duration"
      by (rule in_budget_time)
    with over_budget_time[OF that(1)] show ?thesis
      by simp
  qed
  have escapes: "listen_for_events loads duration start s = Some (Inl e, k)"
    if "fst (s k) = Raise e" and "e \<noteq> ReadTimeout" for e
    using that run listen_loop_raise[of s k e loads duration start "collected loads s 0 k"]
    by simp
  from stop late escapes show ?thesis
    by (simp add: returned_at_def)
qed

theorem budget_stops_consumption_witness:
  "list_all (\<lambda>j. in_budget 1 0 (slow_stream j) \<and> \<not> terminal json_loads (fst (slow_stream j))) [0..<1]
   \<and> over_budget 1 0 (slow_stream 1)
   \<and> listen_for_events json_loads 1 0 slow_stream = Some (Inr [event_running 10], 1)
   \<and> returned_at slow_stream (Inr [event_running 10], 1) = 20
   \<and> snd (slow_stream 1) - (0 + 1) \<le> snd (slow_stream 1) - snd (slow_stream 0)
   \<and> list_all (\<lambda>j. in_budget 1 0 (silent_stream j) \<and> \<not> terminal json_loads (fst (silent_stream j))) [0..<1]
   \<and> fst (silent_stream 1) = Raise ReadTimeout
   \<and> listen_for_events json_loads 1 0 silent_stream = Some (Inr [event_running 10], 1)
   \<and> list_all (\<lambda>j. in_budget 5 0 (plain_id_stream j) \<and> \<not> terminal json_loads (fst (plain_id_stream j))) [0..<3]
   \<and> fst (plain_id_stream 3) = Eof
   \<and> listen_for_events json_loads 5 0 plain_id_stream = Some (Inr [], 3)
   \<and> fst (unreachable 0) = Raise (TransportError ''ConnectError'')
   \<and> TransportError ''ConnectError'' \<noteq> ReadTimeout
   \<and> listen_for_events json_loads 1 0 unreachable = Some (Inl (TransportError ''ConnectError''), 0)"
proof -
  have a1: "\<forall>j<1. in_budget 1 0 (slow_stream j) \<and> \<not> terminal json_loads (fst (slow_stream j))"
    unfolding all_below_list by code_simp
  have a2: "over_budget 1 0 (slow_stream 1)"
    by code_simp
  have a3: "collected json_loads slow_stream 0 1 = [event_running 10]"
    by code_simp
  have a4: "snd (slow_stream 1) = 20" "snd (slow_stream 0) = 1/2"
    by (simp_all add: slow_stream_def script_def)
  have b1: "\<forall>j<1. in_budget 1 0 (silent_stream j) \<and> \<not> terminal json_loads (fst (silent_stream j))"
    unfolding all_below_list by code_simp
  have b2: "fst (silent_stream 1) = Raise ReadTimeout"
    by (simp add: silent_stream_def script_def)
  have b3: "collected json_loads silent_stream 0 1 = [event_running 10]"
    by code_simp
  have c1: "\<forall>j<3. in_budget 5 0 (plain_id_stream j) \<and> \<not> terminal json_loads (fst (plain_id_stream j))"
    unfolding all_below_list by code_simp
  have c2: "fst (plain_id_stream 3) = Eof"
    by (simp add: plain_id_stream_def script_def at_time_def)
  have c3: "collected json_loads plain_id_stream 0 3 = []"
    by code_simp
  have d1: "\<forall>j<0. in_budget 1 0 (unreachable j) \<and> \<not> terminal json_loads (fst (unreachable j))"
    by simp
  have d2: "fst (unreachable 0) = Raise (TransportError ''ConnectError'')"
    by (simp add: unreachable_def script_def)
  have slow: "listen_for_events json_loads 1 0 slow_stream = Some (Inr [event_running 10], 1)
              \<and> returned_at slow_stream (Inr [event_running 10], 1) = 20
              \<and> snd (slow_stream 1) - (0 + 1) \<le> snd (slow_stream 1) - snd (slow_stream 0)"
    using budget_stops_consumption[OF a1] a2 a3 a4 by simp
  have silent: "listen_for_events json_loads 1 0 silent_stream = Some (Inr [event_running 10], 1)"
    using budget_stops_consumption[OF b1] b2 b3 by simp
  have closed: "listen_for_events json_loads 5 0 plain_id_stream = Some (Inr [], 3)"
    using budget_stops_consumption[OF c1] c2 c3 by simp
  have down: "listen_for_events json_loads 1 0 unreachable
                = Some (Inl (TransportError ''ConnectError''), 0)"
    using budget_stops_consumption[OF d1] d2 by simp
  show ?thesis
    using slow silent closed down a1 a2 b1 b2 c1 c2 d2 by (simp add: all_below_list)
qed

subsection \<open>C10: connect\_sse takes its session id from an undecodable data line only\<close>





section \<open>Properties of the batch of scenarios\<close>

subsection \<open>Scenarios that contain their failures\<close>

text \<open>
  Four of the seven scenarios catch what their remote calls raise: whatever the
  operations do, they return their rows, and a failure shows in the printed notice or
  in the success rate.
\<close>

lemma bench_stock_ticker_contains:
  "\<exists>rows out1. bench_stock_ticker ops out = (Inr rows, out1)"
  by (simp add: bench_stock_ticker_def Let_def split: prod.splits option.splits sum.splits)

lemma bench_tool_chaining_contains:
  "\<exists>rows out1. bench_tool_chaining ops out = (Inr rows, out1)"
  by (simp add: bench_tool_chaining_def Let_def split: sum.splits)

lemma bench_network_instability_contains:
  "\<exists>rows out1. bench_network_instability ops out = (Inr rows, out1)"
  by (simp add: bench_network_instability_def)

lemma bench_long_running_mcp_contained:
  assumes "call ops ''rest.run_task_polling'' 0 = Inr m"
  shows "\<exists>rows out1. bench_long_running ops out = (Inr rows, out1)"
  using assms by (simp add: bench_long_running_def Let_def split: sum.splits)

subsection \<open>Scenarios that let them escape\<close>

lemma bench_multi_turn_chat_escapes:
  assumes "call ops ''rest.chat_turn'' 0 = Inl e" and "0 < iterations"
  shows "bench_multi_turn_chat ops iterations out = (Inl e, out @ [Benchmarking ''Multi-turn Chat''])"
  using assms by (simp add: bench_multi_turn_chat_def Let_def upt_conv_Cons)

lemma first_scenario_failure_ends_batch:
  assumes "call ops ''rest.chat_turn'' 0 = Inl e"
  shows "run_all_benchmarks ops = (Inl e, [Benchmarking ''Multi-turn Chat''])"
proof -
  have "extend_results (Inr [], []) (bench_multi_turn_chat ops 20)
          = (Inl e, [Benchmarking ''Multi-turn Chat''])"
    using bench_multi_turn_chat_escapes[OF assms, of 20 "[]"] by (simp add: extend_results_def)
  then show ?thesis
    by (simp add: run_all_benchmarks_def extend_results_def)
qed

subsection \<open>C8: one unreachable endpoint and the whole batch\<close>

text \<open>
  Claim C8 says that no exception escapes to end a whole batch because one scenario's
  remote calls are unreachable, and that the remaining scenarios still run. In the code
  \<open>bench_multi_turn_chat\<close> (like \<open>bench_concurrency\<close>) has \<open>try ... finally\<close>
  without the \<open>except Exception\<close> of its sibling scenarios, and
  \<open>run_all_benchmarks\<close> catches nothing. With the REST endpoint unreachable, the
  first chat turn raises, the exception leaves \<open>run_all_benchmarks\<close>, and none of the
  six other scenarios is started; an unreachable MCP endpoint ends the batch in the same
  scenario, at \<open>initialize_async\<close>. The same operations inside a sibling scenario are
  contained.
\<close>

theorem unreachable_endpoint_ends_the_batch:
  "run_all_benchmarks rest_unreachable
     = (Inl (TransportError ''ConnectError''), [Benchmarking ''Multi-turn Chat''])
   \<and> run_all_benchmarks mcp_unreachable
     = (Inl (TransportError ''ConnectError''), [Benchmarking ''Multi-turn Chat''])
   \<and> bench_tool_chaining rest_unreachable []
     = (Inr [], [Benchmarking ''Tool Chaining'',
                 BenchFailed ''Tool chaining'' (TransportError ''ConnectError'')])
   \<and> snd (run_all_benchmarks all_reachable)
     = [Benchmarking ''Multi-turn Chat'', Benchmarking ''Concurrency'',
        Benchmarking ''Long-running Task'', Benchmarking ''Stock Ticker'',
        Benchmarking ''Network Instability'', Benchmarking ''Tool Chaining'',
        Benchmarking ''Real-World Chat'', BatchCompleted]"
  by code_simp

end
